theory Spec2Isabelle
  imports Complex_Main "HOL-Library.Word"
begin

unbundle bit_operations_syntax

section \<open>Conventions of the embedding\<close>

text \<open>
  The C sources are embedded function by function, under their own names.
  \<^item> \<open>uint32_t\<close> is \<open>32 word\<close>, \<open>uint16_t\<close> is \<open>16 word\<close>; the two-bit bit-fields
    \<open>SM\<close> and \<open>SDI\<close> are \<open>2 word\<close>. C \<open>int\<close> is taken to be at least 32 bits wide.
  \<^item> The small \<open>uint8_t\<close> counts of a label configuration (\<open>numSigBits\<close>,
    \<open>numSigDigits\<close>, \<open>numDiscreteBits\<close>) are promoted to \<open>int\<close> in every expression that
    uses them and are held as \<open>nat\<close>.
  \<^item> \<open>float\<close> and \<open>double\<close> values are held as exact reals: the embedding follows the
    arithmetic the code writes (division by the resolution, adding one half, clamping,
    truncating on the cast to an integer) without the rounding of the machine formats.
  \<^item> Output parameters become results; \<open>EXIT_FAILURE\<close> is \<open>None\<close>. Pointer arguments
    are taken to be valid, except the configuration pointer of a transmit message,
    which is an \<open>option\<close>.
  \<^item> \<open>Timer23_GetTimestamp_ms()\<close> reads a hardware timer; the value read is passed in
    as the argument \<open>now\<close>.
\<close>

subsection \<open>Numeric helpers of C\<close>

definition INT32_MIN :: real where "INT32_MIN = - 2147483648"
definition INT32_MAX :: real where "INT32_MAX = 2147483647"
definition UINT32_MAX :: "32 word" where "UINT32_MAX = - 1"
definition NUM_BITS_IN_UINT32 :: nat where "NUM_BITS_IN_UINT32 = 32"
definition INT32_SIGN_BIT_MASK :: "32 word" where "INT32_SIGN_BIT_MASK = 0x80000000"

text \<open>\<open>#define clamp(value, low, high) (((value) > (high)) ? (high) : (((value) < (low)) ? (low) : (value)))\<close>\<close>

definition clamp :: "real \<Rightarrow> real \<Rightarrow> real \<Rightarrow> real" where
  "clamp val low high = (if val > high then high else if val < low then low else val)"

text \<open>The cast of a floating value to an integer type discards the fraction.\<close>

definition c_trunc :: "real \<Rightarrow> int" where
  "c_trunc x = (if x < 0 then - \<lfloor>- x\<rfloor> else \<lfloor>x\<rfloor>)"

section \<open>Types (ARINC\_typedefs.h, ARINC.h)\<close>

type_synonym arincLabel = "16 word"

type_synonym ARINC429_SM = "2 word"

definition ARNIC429_SSM_BCD_NO_COMPUTED_DATA :: ARINC429_SM where "ARNIC429_SSM_BCD_NO_COMPUTED_DATA = 1"
definition ARINC429_SSM_BNR_FAILURE_WARNING :: ARINC429_SM where "ARINC429_SSM_BNR_FAILURE_WARNING = 0"
definition ARINC429_SSM_BNR_NORMAL_OPERATION :: ARINC429_SM where "ARINC429_SSM_BNR_NORMAL_OPERATION = 3"
definition ARINC429_SSM_DIS_NORMAL_OPERATION :: ARINC429_SM where "ARINC429_SSM_DIS_NORMAL_OPERATION = 0"

record ARINC429_RxMsgData =
  rawARINCword :: "32 word"
  SM :: "2 word"
  SDI :: "2 word"
  engDataFloat :: real
  engDataInt :: int
  discreteBits :: "32 word"
  sysTimeLastGoodMsg_ms :: "32 word"
  isEngDataInBounds :: bool
  isNotBabbling :: bool
  isDataFresh :: bool

datatype ARINC429_MsgType = ARINC429_STD_BNR_MSG | ARINC429_STD_BCD_MSG | ARINC429_DISCRETE_MSG

datatype ARINC429_GetLabelDataReturnStatus =
    ARINC429_GET_LABEL_DATA_ERROR_INVALID_ARGUMENT
  | ARINC429_GET_LABEL_DATA_ERROR_NO_MATCHING_LABEL
  | ARINC429_GET_LABEL_DATA_ERROR_CONDITIONS_NOT_CORRECT
  | ARINC429_GET_LABEL_DATA_MSG_SUCCESS

record ARINC429_LabelConfig =
  label :: "8 word"
  msgType :: ARINC429_MsgType
  numSigBits :: nat
  numSigDigits :: nat
  resolution :: real
  maxValidValue :: real
  minValidValue :: real
  numDiscreteBits :: nat
  minTransmitInterval_ms :: "16 word"
  maxTransmitInterval_ms :: "16 word"

record ARINC429_RxMsg =
  msgConfig :: ARINC429_LabelConfig
  data :: ARINC429_RxMsgData

text \<open>\<open>rxMsgs\<close> points to \<open>numMsgs\<close> messages: the array is a list and \<open>numMsgs\<close> its length.\<close>

record ARINC429_RxMsgArray =
  rxMsgs :: "ARINC429_RxMsg list"
  maxBusFailureCounts :: "32 word"
  currentCounts :: "32 word"
  hasBusFailed :: bool

definition numMsgs :: "ARINC429_RxMsgArray \<Rightarrow> nat" where
  "numMsgs a = length (rxMsgs a)"

record ARINC429_TxMsg =
  tx_msgConfig :: "ARINC429_LabelConfig option"
  tx_SM :: ARINC429_SM
  tx_SDI :: "2 word"
  engData :: real
  tx_discreteBits :: "32 word"

datatype ARINC429_ReadMsgReturnStatus =
    ARINC429_READ_MSG_ERROR_INVALID_ARGUMENT
  | ARINC429_READ_MSG_ERROR_NO_MATCHING_LABEL
  | ARINC429_READ_MSG_ERROR_INVALID_MESSAGE
  | ARINC429_READ_MSG_ERROR
  | ARINC429_READ_MSG_SUCCESS

datatype ARINC429_WriteMsgReturnStatus =
    ARINC429_WRITE_MSG_ERROR_INVALID_ARGUMENT
  | ARINC429_WRITE_MSG_ERROR_INVALID_MSG_DATA
  | ARINC429_WRITE_MSG_ERROR_INVALID_MSG_CONFIG
  | ARINC429_WRITE_MSG_ERROR
  | ARINC429_WRITE_MSG_SENT_DATA_CLIPPED
  | ARINC429_WRITE_MSG_SUCCESS

section \<open>Constants and macros (ARINC\_common.h)\<close>

definition ARINC429_LBL_MASK :: "32 word" where "ARINC429_LBL_MASK = 0xFF"
definition ARINC429_SSM_FIELD_SHIFT_VAL :: nat where "ARINC429_SSM_FIELD_SHIFT_VAL = 29"
definition ARINC429_SSM_FIELD_LIMIT_MASK :: "32 word" where "ARINC429_SSM_FIELD_LIMIT_MASK = 0x3"
definition ARINC429_SDI_FIELD_SHIFT_VAL :: nat where "ARINC429_SDI_FIELD_SHIFT_VAL = 8"
definition ARINC429_SDI_FIELD_LIMIT_MASK :: "32 word" where "ARINC429_SDI_FIELD_LIMIT_MASK = 0x3"

definition ARINC429_BNR_MAX_DATA_FIELD_SHIFT :: nat where "ARINC429_BNR_MAX_DATA_FIELD_SHIFT = 28"
definition ARINC429_BNR_STD_MSG_NUM_SIGBITS_18 :: nat where "ARINC429_BNR_STD_MSG_NUM_SIGBITS_18 = 18"
definition ARINC429_BNR_STD_MSG_NUM_SIGBITS_19 :: nat where "ARINC429_BNR_STD_MSG_NUM_SIGBITS_19 = 19"
definition ARINC429_BNR_STD_MSG_NUM_SIGBITS_20 :: nat where "ARINC429_BNR_STD_MSG_NUM_SIGBITS_20 = 20"
definition ARINC429_BNR_STD_MSG_MAX_NUM_SIGBITS :: nat where "ARINC429_BNR_STD_MSG_MAX_NUM_SIGBITS = 20"

definition ARINC429_BNR_STD_MSG_DATAFIELDMASK_UPTO18SIGBITS :: "32 word" where
  "ARINC429_BNR_STD_MSG_DATAFIELDMASK_UPTO18SIGBITS = 0x1FFFFC00"
definition ARINC429_BNR_STD_MSG_DATAFIELDMASK_19SIGBITS :: "32 word" where
  "ARINC429_BNR_STD_MSG_DATAFIELDMASK_19SIGBITS = 0x1FFFFE00"
definition ARINC429_BNR_STD_MSG_DATAFIELDMASK_20SIGBITS :: "32 word" where
  "ARINC429_BNR_STD_MSG_DATAFIELDMASK_20SIGBITS = 0x1FFFFF00"

definition ARINC429_BNR_BCD_MSG_DISCRETE_BITS_SHIFT_VAL :: nat where
  "ARINC429_BNR_BCD_MSG_DISCRETE_BITS_SHIFT_VAL = 10"

definition ARINC429_BCD_MAX_DIGIT_VAL :: "32 word" where "ARINC429_BCD_MAX_DIGIT_VAL = 9"
definition ARINC429_BCD_DATAFIELDMASK :: "32 word" where "ARINC429_BCD_DATAFIELDMASK = 0x1FFFFC00"
definition ARINC429_BCD_STD_DATA_MAX_DATA_FIELD_SIZE :: nat where
  "ARINC429_BCD_STD_DATA_MAX_DATA_FIELD_SIZE = 19"
definition ARINC429_BCD_STD_MSG_DATA_FIELD_SHIFT :: nat where "ARINC429_BCD_STD_MSG_DATA_FIELD_SHIFT = 10"
definition ARINC429_BCD_BITS_PER_DIGIT :: nat where "ARINC429_BCD_BITS_PER_DIGIT = 4"
definition ARINC429_BCD_STD_MSG_MAX_NUM_SIGDIGITS :: nat where "ARINC429_BCD_STD_MSG_MAX_NUM_SIGDIGITS = 5"
definition ARINC429_BCD_STD_MSG_MAX_NUM_BITS_MSC :: nat where "ARINC429_BCD_STD_MSG_MAX_NUM_BITS_MSC = 3"

definition ARINC429_DISCRETE_MSG_MAX_NUM_BITS :: nat where "ARINC429_DISCRETE_MSG_MAX_NUM_BITS = 19"
definition ARINC429_DISCRETE_MSG_MAX_DATA_FIELD_SHIFT :: nat where
  "ARINC429_DISCRETE_MSG_MAX_DATA_FIELD_SHIFT = 28"

text \<open>\<open>RevBitsInByte\<close> swaps the nibbles, then the bit pairs, then neighbouring bits;
  \<open>FormatLabelNumber\<close> reads the decimal digits of its argument as octal digits.\<close>

definition RevBitsInByte :: "32 word \<Rightarrow> 32 word" where
  "RevBitsInByte byte =
     (let n4 = drop_bit 4 (byte AND 0xF0) OR push_bit 4 (byte AND 0x0F);
          n2 = drop_bit 2 (n4 AND 0xCC) OR push_bit 2 (n4 AND 0x33)
      in drop_bit 1 (n2 AND 0xAA) OR push_bit 1 (n2 AND 0x55))"

definition FormatLabelNumber :: "nat \<Rightarrow> arincLabel" where
  "FormatLabelNumber labelInOctal =
     ucast (RevBitsInByte
       (push_bit 6 (of_nat (labelInOctal div 100))
        OR push_bit 3 (of_nat (labelInOctal div 10 - (labelInOctal div 100) * 10))
        OR of_nat (labelInOctal - (labelInOctal div 10) * 10)))"

section \<open>Conversions (ARINC\_common.c)\<close>

text \<open>
  \<open>ARINC429_BNR_ConvertEngValToRawBNRmsgData\<close>: the result is the pair
  \<open>(*result, *isDataClipped)\<close>.
\<close>

definition ARINC429_BNR_ConvertEngValToRawBNRmsgData ::
    "nat \<Rightarrow> real \<Rightarrow> real \<Rightarrow> (32 word \<times> bool) option" where
  "ARINC429_BNR_ConvertEngValToRawBNRmsgData nSigBits res dataEng =
     (if nSigBits < 1 \<or> nSigBits > ARINC429_BNR_STD_MSG_MAX_NUM_SIGBITS then None
      else
        let calcValue0 = (if res \<noteq> 0 then dataEng / res else 0);
            calcValue1 = calcValue0 + (if calcValue0 < 0 then - (1 / 2) else 1 / 2);
            calcValue = clamp calcValue1 INT32_MIN INT32_MAX;
            calcValueAsInt = c_trunc calcValue;
            calcValueAsUint = (word_of_int calcValueAsInt :: 32 word);
            datafieldOvfCheckMaskVal = push_bit nSigBits UINT32_MAX
        in
          if calcValueAsUint AND INT32_SIGN_BIT_MASK \<noteq> 0 then
            (if calcValueAsUint AND datafieldOvfCheckMaskVal \<noteq> datafieldOvfCheckMaskVal
             then Some (push_bit nSigBits 1, True)
             else Some (calcValueAsUint, False))
          else
            (if calcValueAsUint AND datafieldOvfCheckMaskVal \<noteq> 0
             then Some (drop_bit (NUM_BITS_IN_UINT32 - nSigBits) UINT32_MAX, True)
             else Some (calcValueAsUint, False)))"

definition ARINC429_BNR_ConvertRawMsgDataToEngUnits ::
    "nat \<Rightarrow> real \<Rightarrow> 32 word \<Rightarrow> real option" where
  "ARINC429_BNR_ConvertRawMsgDataToEngUnits nSigBits res rawMsgData =
     (if nSigBits < 1 \<or> nSigBits > ARINC429_BNR_STD_MSG_MAX_NUM_SIGBITS then None
      else
        let rawMsgData_SignExt =
              (if push_bit nSigBits 1 AND rawMsgData \<noteq> 0
               then rawMsgData OR push_bit nSigBits UINT32_MAX
               else rawMsgData);
            msgDataAsInt = sint rawMsgData_SignExt
        in Some (real_of_int msgDataAsInt * res))"

definition ARINC429_ExtractSDIbits :: "32 word \<Rightarrow> 8 word" where
  "ARINC429_ExtractSDIbits ARINCMsg =
     ucast (drop_bit ARINC429_SDI_FIELD_SHIFT_VAL ARINCMsg AND ARINC429_SDI_FIELD_LIMIT_MASK)"

definition ARINC429_ExtractSSMbits :: "32 word \<Rightarrow> 8 word" where
  "ARINC429_ExtractSSMbits ARINCMsg =
     ucast (drop_bit ARINC429_SSM_FIELD_SHIFT_VAL ARINCMsg AND ARINC429_SSM_FIELD_LIMIT_MASK)"

text \<open>
  The digit loop of \<open>ARINC429_BCD_ConvertBCDvalToEngVal\<close>; it returns the final
  \<open>calcValue\<close> and \<open>tempVal\<close>. A digit above 9 leaves the loop with \<open>tempVal\<close> not 0.
\<close>

function BCDvalToEngVal_loop ::
    "nat \<Rightarrow> 32 word \<Rightarrow> 32 word \<Rightarrow> nat \<Rightarrow> 32 word \<Rightarrow> 32 word \<times> 32 word" where
  "BCDvalToEngVal_loop nSigDigits calcValue tempVal count multVal =
     (if tempVal > 0 \<and> count < nSigDigits then
        (let thisDigit = tempVal AND 0xF in
         if thisDigit > ARINC429_BCD_MAX_DIGIT_VAL then (calcValue, tempVal)
         else BCDvalToEngVal_loop nSigDigits (calcValue + multVal * thisDigit)
                (drop_bit ARINC429_BCD_BITS_PER_DIGIT tempVal) (count + 1) (multVal * 10))
      else (calcValue, tempVal))"
  by pat_completeness auto
termination
  by (relation "measure (\<lambda>(nSigDigits, calcValue, tempVal, count, multVal). nSigDigits - count)") auto

definition ARINC429_BCD_ConvertBCDvalToEngVal :: "nat \<Rightarrow> real \<Rightarrow> 32 word \<Rightarrow> real option" where
  "ARINC429_BCD_ConvertBCDvalToEngVal nSigDigits res rawBCDdata =
     (if nSigDigits < 1 \<or> nSigDigits > ARINC429_BCD_STD_MSG_MAX_NUM_SIGDIGITS then None
      else
        (case BCDvalToEngVal_loop nSigDigits 0 rawBCDdata 0 1 of
           (calcValue, tempVal) \<Rightarrow>
             if tempVal = 0 then Some (real (unat calcValue) * res) else None))"




section \<open>Message processing (ARINC.c)\<close>

definition maxNumRxMsgsInArray :: nat where "maxNumRxMsgsInArray = 64"

text \<open>
  Each \<open>Process...message\<close> function returns its status and the received-message
  struct as it leaves it. For a \<open>numSigBits\<close> above 28 the shift count of the first
  statement of \<open>ARINC429_ProcessStdBNRmessage\<close> is negative in C; the shifted value is not
  used there, because the conversion then fails.
\<close>

definition ARINC429_ProcessStdBNRmessage ::
    "ARINC429_RxMsg \<Rightarrow> 32 word \<Rightarrow> ARINC429_ReadMsgReturnStatus \<times> ARINC429_RxMsg" where
  "ARINC429_ProcessStdBNRmessage thisRxMsg ARINCMsg =
     (let cfg = msgConfig thisRxMsg;
          d0 = (data thisRxMsg)\<lparr>rawARINCword := ARINCMsg\<rparr>;
          rawDataField0 = drop_bit (ARINC429_BNR_MAX_DATA_FIELD_SHIFT - numSigBits cfg) ARINCMsg;
          rawDataField = rawDataField0 AND drop_bit (NUM_BITS_IN_UINT32 - numSigBits cfg - 1) UINT32_MAX
      in case ARINC429_BNR_ConvertRawMsgDataToEngUnits (numSigBits cfg) (resolution cfg) rawDataField of
           None \<Rightarrow> (ARINC429_READ_MSG_ERROR, thisRxMsg\<lparr>data := d0\<rparr>)
         | Some dataEng \<Rightarrow>
             let calcValue0 = (if dataEng < 0 then dataEng - 1 / 2 else dataEng + 1 / 2);
                 calcValue = clamp calcValue0 INT32_MIN INT32_MAX;
                 dBits = (if numDiscreteBits cfg > 0
                          then drop_bit ARINC429_BNR_BCD_MSG_DISCRETE_BITS_SHIFT_VAL ARINCMsg
                                 AND drop_bit (NUM_BITS_IN_UINT32 - numDiscreteBits cfg) UINT32_MAX
                          else 0);
                 d1 = d0\<lparr>engDataFloat := dataEng,
                         engDataInt := c_trunc calcValue,
                         discreteBits := dBits,
                         SM := ucast (ARINC429_ExtractSSMbits ARINCMsg),
                         SDI := (if numSigBits cfg \<le> ARINC429_BNR_STD_MSG_NUM_SIGBITS_18
                                 then ucast (ARINC429_ExtractSDIbits ARINCMsg) else 0)\<rparr>
             in (ARINC429_READ_MSG_SUCCESS, thisRxMsg\<lparr>data := d1\<rparr>))"

definition ARINC429_ProcessStdBCDmessage ::
    "ARINC429_RxMsg \<Rightarrow> 32 word \<Rightarrow> ARINC429_ReadMsgReturnStatus \<times> ARINC429_RxMsg" where
  "ARINC429_ProcessStdBCDmessage thisRxMsg arincMsg =
     (let cfg = msgConfig thisRxMsg in
      if numSigDigits cfg < 1
         \<or> numSigDigits cfg > ARINC429_BCD_STD_MSG_MAX_NUM_SIGDIGITS
         \<or> (numSigDigits cfg * 4 - 1) + numDiscreteBits cfg > ARINC429_BCD_STD_DATA_MAX_DATA_FIELD_SIZE
      then (ARINC429_READ_MSG_ERROR_INVALID_MESSAGE, thisRxMsg)
      else
        let bcdData0 = arincMsg AND ARINC429_BCD_DATAFIELDMASK;
            bcdData = drop_bit (ARINC429_BCD_STD_MSG_DATA_FIELD_SHIFT
                        + ARINC429_BCD_BITS_PER_DIGIT
                          * (ARINC429_BCD_STD_MSG_MAX_NUM_SIGDIGITS - numSigDigits cfg)) bcdData0
        in case ARINC429_BCD_ConvertBCDvalToEngVal (numSigDigits cfg) (resolution cfg) bcdData of
             None \<Rightarrow> (ARINC429_READ_MSG_ERROR_INVALID_MESSAGE, thisRxMsg)
           | Some dataEng \<Rightarrow>
               let calcValue0 = dataEng + (if dataEng < 0 then - (1 / 2) else 1 / 2);
                   calcValue = clamp calcValue0 INT32_MIN INT32_MAX;
                   dBits = (if numDiscreteBits cfg > 0
                            then drop_bit ARINC429_BNR_BCD_MSG_DISCRETE_BITS_SHIFT_VAL arincMsg
                                   AND drop_bit (NUM_BITS_IN_UINT32 - numDiscreteBits cfg) UINT32_MAX
                            else 0);
                   d1 = (data thisRxMsg)\<lparr>engDataFloat := dataEng,
                           engDataInt := c_trunc calcValue,
                           discreteBits := dBits,
                           SM := ucast (ARINC429_ExtractSSMbits arincMsg),
                           SDI := ucast (ARINC429_ExtractSDIbits arincMsg)\<rparr>
               in (ARINC429_READ_MSG_SUCCESS, thisRxMsg\<lparr>data := d1\<rparr>))"

text \<open>
  On an invalid configuration \<open>ARINC429_ProcessDiscreteMessage\<close> returns the constant
  \<open>ARINC429_WRITE_MSG_ERROR_INVALID_MSG_CONFIG\<close> of the other enumeration; its value
  \<open>-4\<close> is \<open>ARINC429_READ_MSG_ERROR\<close> in the function's return type.
\<close>

definition ARINC429_ProcessDiscreteMessage ::
    "ARINC429_RxMsg \<Rightarrow> 32 word \<Rightarrow> ARINC429_ReadMsgReturnStatus \<times> ARINC429_RxMsg" where
  "ARINC429_ProcessDiscreteMessage thisRxMsg arincMsg =
     (let cfg = msgConfig thisRxMsg in
      if numDiscreteBits cfg < 1 \<or> numDiscreteBits cfg > ARINC429_DISCRETE_MSG_MAX_NUM_BITS
      then (ARINC429_READ_MSG_ERROR, thisRxMsg)
      else
        let dBits = drop_bit 10 arincMsg
                      AND drop_bit (NUM_BITS_IN_UINT32 - numDiscreteBits cfg) UINT32_MAX;
            d1 = (data thisRxMsg)\<lparr>engDataFloat := 0,
                    engDataInt := 0,
                    isEngDataInBounds := False,
                    discreteBits := dBits,
                    SM := ucast (ARINC429_ExtractSSMbits arincMsg),
                    SDI := ucast (ARINC429_ExtractSDIbits arincMsg)\<rparr>
        in (ARINC429_READ_MSG_SUCCESS, thisRxMsg\<lparr>data := d1\<rparr>))"

definition ARINC429_IsLabelDataFresh :: "32 word \<Rightarrow> ARINC429_RxMsg \<Rightarrow> bool" where
  "ARINC429_IsLabelDataFresh clock_ms rxMsg =
     (let elapsedTime_ms = clock_ms - sysTimeLastGoodMsg_ms (data rxMsg)
      in elapsedTime_ms \<le> ucast (maxTransmitInterval_ms (msgConfig rxMsg)))"

definition ARINC429_IsLabelDataNotBabbling :: "32 word \<Rightarrow> ARINC429_RxMsg \<Rightarrow> bool" where
  "ARINC429_IsLabelDataNotBabbling clock_ms rxMsg =
     (let elapsedTime = clock_ms - sysTimeLastGoodMsg_ms (data rxMsg)
      in elapsedTime \<ge> ucast (minTransmitInterval_ms (msgConfig rxMsg)))"

text \<open>
  The label search shared by \<open>ARINC429_ProcessReceivedMessage\<close> and
  \<open>ARINC429_GetLatestLabelData\<close>: \<open>count\<close> runs from its start value while it is below
  \<open>numMsgs\<close> and below \<open>maxNumRxMsgsInArray\<close>, and stops at the first message whose
  configured label matches. The result is that index, or \<open>None\<close> when the loop runs out.
\<close>

function labelMatch_loop :: "(ARINC429_RxMsg \<Rightarrow> bool) \<Rightarrow> ARINC429_RxMsg list \<Rightarrow> nat \<Rightarrow> nat option" where
  "labelMatch_loop matches msgs count =
     (if count < length msgs \<and> count < maxNumRxMsgsInArray then
        (if matches (msgs ! count) then Some count
         else labelMatch_loop matches msgs (count + 1))
      else None)"
  by pat_completeness auto
termination
  by (relation "measure (\<lambda>(matches, msgs, count). length msgs - count)") auto

definition ARINC429_ProcessReceivedMessage ::
    "ARINC429_RxMsgArray \<Rightarrow> 32 word \<Rightarrow> 32 word
       \<Rightarrow> ARINC429_ReadMsgReturnStatus \<times> ARINC429_RxMsgArray" where
  "ARINC429_ProcessReceivedMessage rxMsgArray ARINCMsg now =
     (let msgLabel = (ucast (ARINCMsg AND ARINC429_LBL_MASK) :: 8 word) in
      case labelMatch_loop (\<lambda>m. label (msgConfig m) = msgLabel) (rxMsgs rxMsgArray) 0 of
        None \<Rightarrow> (ARINC429_READ_MSG_ERROR_NO_MATCHING_LABEL, rxMsgArray)
      | Some count \<Rightarrow>
          let thisRxMsg = rxMsgs rxMsgArray ! count;
              stored = thisRxMsg\<lparr>data := (data thisRxMsg)\<lparr>rawARINCword := ARINCMsg\<rparr>\<rparr>;
              (readMsgReturnStatus, processed) =
                 (case msgType (msgConfig thisRxMsg) of
                    ARINC429_STD_BNR_MSG \<Rightarrow> ARINC429_ProcessStdBNRmessage thisRxMsg ARINCMsg
                  | ARINC429_STD_BCD_MSG \<Rightarrow> ARINC429_ProcessStdBCDmessage stored ARINCMsg
                  | ARINC429_DISCRETE_MSG \<Rightarrow> ARINC429_ProcessDiscreteMessage stored ARINCMsg);
              stamped =
                 (if readMsgReturnStatus = ARINC429_READ_MSG_SUCCESS then
                    processed\<lparr>data := (data processed)
                       \<lparr>isNotBabbling := ARINC429_IsLabelDataNotBabbling now processed,
                        sysTimeLastGoodMsg_ms := now\<rparr>\<rparr>
                  else processed)
          in (readMsgReturnStatus, rxMsgArray\<lparr>rxMsgs := (rxMsgs rxMsgArray)[count := stamped]\<rparr>))"

text \<open>
  The assemble functions return the status and the word written to the output
  parameter, \<open>None\<close> when the function returns without writing it.
\<close>

definition ARINC429_AssembleStdBNRmessage ::
    "ARINC429_TxMsg \<Rightarrow> ARINC429_WriteMsgReturnStatus \<times> 32 word option" where
  "ARINC429_AssembleStdBNRmessage txMsg =
     (case tx_msgConfig txMsg of
        None \<Rightarrow> (ARINC429_WRITE_MSG_ERROR_INVALID_ARGUMENT, None)
      | Some cfg \<Rightarrow>
          (case ARINC429_BNR_ConvertEngValToRawBNRmsgData (numSigBits cfg) (resolution cfg) (engData txMsg) of
             None \<Rightarrow> (ARINC429_WRITE_MSG_ERROR, None)
           | Some (dataField, isDataClipped) \<Rightarrow>
               let writeMsgReturnStatus =
                     (if isDataClipped then ARINC429_WRITE_MSG_SENT_DATA_CLIPPED
                      else ARINC429_WRITE_MSG_SUCCESS);
                   dataField_Shifted0 =
                     push_bit (ARINC429_BNR_MAX_DATA_FIELD_SHIFT - numSigBits cfg) dataField;
                   dataField_Shifted =
                     (if ARINC429_BNR_STD_MSG_NUM_SIGBITS_20 = numSigBits cfg
                      then dataField_Shifted0 AND ARINC429_BNR_STD_MSG_DATAFIELDMASK_20SIGBITS
                      else if ARINC429_BNR_STD_MSG_NUM_SIGBITS_19 = numSigBits cfg
                      then dataField_Shifted0 AND ARINC429_BNR_STD_MSG_DATAFIELDMASK_19SIGBITS
                      else dataField_Shifted0 AND ARINC429_BNR_STD_MSG_DATAFIELDMASK_UPTO18SIGBITS);
                   discreteBits_shifted =
                     (if numDiscreteBits cfg > 0
                      then push_bit ARINC429_BNR_BCD_MSG_DISCRETE_BITS_SHIFT_VAL
                             (tx_discreteBits txMsg
                                AND drop_bit (NUM_BITS_IN_UINT32 - numDiscreteBits cfg) UINT32_MAX)
                      else 0);
                   arincMsgTemp0 = ucast (label cfg) OR dataField_Shifted OR discreteBits_shifted;
                   arincMsgTemp1 =
                     (if numSigBits cfg \<le> ARINC429_BNR_STD_MSG_NUM_SIGBITS_18
                      then arincMsgTemp0
                             OR push_bit ARINC429_SDI_FIELD_SHIFT_VAL
                                  (ucast (tx_SDI txMsg) AND ARINC429_SDI_FIELD_LIMIT_MASK)
                      else arincMsgTemp0);
                   arincMsgTemp =
                     arincMsgTemp1
                       OR push_bit ARINC429_SSM_FIELD_SHIFT_VAL
                            (ucast (tx_SM txMsg) AND ARINC429_SSM_FIELD_LIMIT_MASK)
               in (writeMsgReturnStatus, Some arincMsgTemp)))"


definition ARINC429_CheckValidityOfARINC_BNR_Data :: "real \<Rightarrow> ARINC429_LabelConfig \<Rightarrow> ARINC429_SM" where
  "ARINC429_CheckValidityOfARINC_BNR_Data eng lblCfg =
     (if eng < minValidValue lblCfg \<or> eng > maxValidValue lblCfg
      then ARINC429_SSM_BNR_FAILURE_WARNING else ARINC429_SSM_BNR_NORMAL_OPERATION)"

text \<open>
  \<open>ARINC429_GetLatestLabelData\<close> writes \<open>*rxMsgData\<close> only when a label matches; the
  argument \<open>rxMsgData\<close> is the content of the caller's struct before the call (callers
  pass an uninitialised local) and the second result its content afterwards.
\<close>

definition ARINC429_GetLatestLabelData ::
    "ARINC429_RxMsgArray \<Rightarrow> arincLabel \<Rightarrow> ARINC429_RxMsgData \<Rightarrow> 32 word
       \<Rightarrow> ARINC429_GetLabelDataReturnStatus \<times> ARINC429_RxMsgData" where
  "ARINC429_GetLatestLabelData rxMsgArray hexFlippedLabel rxMsgData now =
     (case labelMatch_loop (\<lambda>m. ucast (label (msgConfig m)) = hexFlippedLabel) (rxMsgs rxMsgArray) 0 of
        None \<Rightarrow> (ARINC429_GET_LABEL_DATA_ERROR_NO_MATCHING_LABEL, rxMsgData)
      | Some count \<Rightarrow>
          let copied = data (rxMsgs rxMsgArray ! count);
              current_time_ms = now
          in (ARINC429_GET_LABEL_DATA_MSG_SUCCESS,
              copied\<lparr>isDataFresh := ARINC429_IsLabelDataFresh current_time_ms (rxMsgs rxMsgArray ! count)\<rparr>))"

section \<open>Derived words (calculateNewARINCLabels.c)\<close>

definition PI :: real where "PI = 3.14159265358979"

definition radToDeg :: "real \<Rightarrow> real" where
  "radToDeg angleInRadians = angleInRadians * 180 / PI"

definition AHRS_STATUS_SDI_SSM_MASK :: "32 word" where "AHRS_STATUS_SDI_SSM_MASK = 0x60000300"
definition AHRS_272_BIT_25_SET :: "32 word" where "AHRS_272_BIT_25_SET = 0x2000000"
definition AHRS_LABEL_271_MSU_FAIL_MASK :: "32 word" where "AHRS_LABEL_271_MSU_FAIL_MASK = 0x400"
definition A429_DISC_SSM_FAIL_MASK :: "32 word" where "A429_DISC_SSM_FAIL_MASK = 0x60000000"

definition filterGoodThreshold :: nat where "filterGoodThreshold = 10"

text \<open>Fields that a C initialiser leaves out are zero.\<close>

definition arincLabel250Config :: ARINC429_LabelConfig where
  "arincLabel250Config =
     \<lparr>label = ucast (FormatLabelNumber 250), msgType = ARINC429_STD_BNR_MSG,
      numSigBits = 12, numSigDigits = 0, resolution = 439453 / 10000000,
      maxValidValue = 180, minValidValue = - 180, numDiscreteBits = 0,
      minTransmitInterval_ms = 0, maxTransmitInterval_ms = 0\<rparr>"

definition arincLabel340Config :: ARINC429_LabelConfig where
  "arincLabel340Config =
     \<lparr>label = ucast (FormatLabelNumber 340), msgType = ARINC429_STD_BNR_MSG,
      numSigBits = 13, numSigDigits = 0, resolution = 15625 / 1000000,
      maxValidValue = 128, minValidValue = - 128, numDiscreteBits = 0,
      minTransmitInterval_ms = 0, maxTransmitInterval_ms = 0\<rparr>"

text \<open>
  The filters (\<open>COMIIRFilter\<close>, \<open>COMIIRDifferentiator\<close>) and \<open>f32_ArcTan2\<close> belong to
  another library. What a call into them returns is an input of the embedding, given
  per call of the calculator together with the timer readings and the contents of its
  uninitialised locals. \<open>v_IIRReset\<close>, \<open>v_IIRPreload\<close>, \<open>IIRDifferentiatorReset\<close> and
  \<open>IIRDifferentiatorPreload\<close> only change the filter's own state, and the value returned
  by \<open>f32_IIRFilter\<close> is used only as an argument of \<open>f32_ArcTan2\<close>. The member
  \<open>discreteBits\<close> of the local transmit message is never assigned; labels 250 and 340
  have no discrete bits, so \<open>ARINC429_AssembleStdBNRmessage\<close> does not read it, and it
  is zero here.
\<close>

record SlipAngle_env =
  ayData_local :: ARINC429_RxMsgData
  azData_local :: ARINC429_RxMsgData
  slipAngleWord_local :: "32 word"
  now_AY :: "32 word"
  now_AZ :: "32 word"
  f32_ArcTan2_ret :: real

record SlipAngle_state =
  isIIRSlipFilterGood :: bool
  iirFilterGoodCount :: nat

definition CalculateSlipAngle ::
    "ARINC429_RxMsgArray \<Rightarrow> SlipAngle_env \<Rightarrow> SlipAngle_state \<Rightarrow> 32 word \<times> SlipAngle_state" where
  "CalculateSlipAngle rxMsgArray env st =
     (let (readStatusAY, ayData) =
            ARINC429_GetLatestLabelData rxMsgArray (FormatLabelNumber 332) (ayData_local env) (now_AY env);
          (readStatusAZ, azData) =
            ARINC429_GetLatestLabelData rxMsgArray (FormatLabelNumber 333) (azData_local env) (now_AZ env);
          isAYdataValid = (ARINC429_GET_LABEL_DATA_MSG_SUCCESS = readStatusAY
                           \<and> isDataFresh ayData \<and> isNotBabbling ayData
                           \<and> ARINC429_SSM_BNR_NORMAL_OPERATION = SM ayData);
          (slipAngleInDegrees, sm, st') =
            (if ARINC429_GET_LABEL_DATA_MSG_SUCCESS = readStatusAZ
                \<and> isDataFresh azData \<and> isNotBabbling azData
                \<and> ARINC429_SSM_BNR_NORMAL_OPERATION = SM azData
             then
               (if isIIRSlipFilterGood st then
                  (let deg = radToDeg (f32_ArcTan2_ret env)
                   in (deg, ARINC429_CheckValidityOfARINC_BNR_Data deg arincLabel250Config, st))
                else
                  (let deg = (if 0 = iirFilterGoodCount st then 0 else radToDeg (f32_ArcTan2_ret env));
                       st1 = st\<lparr>iirFilterGoodCount := iirFilterGoodCount st + 1\<rparr>;
                       st2 = (if iirFilterGoodCount st1 > filterGoodThreshold
                              then st1\<lparr>isIIRSlipFilterGood := True\<rparr> else st1)
                   in (deg, ARINC429_SSM_BNR_FAILURE_WARNING, st2)))
             else
               (0, ARINC429_SSM_BNR_FAILURE_WARNING,
                st\<lparr>isIIRSlipFilterGood := False, iirFilterGoodCount := 0\<rparr>));
          sm' = (if \<not> isAYdataValid then ARINC429_SSM_BNR_FAILURE_WARNING else sm);
          txMsgSlipAngle = \<lparr>tx_msgConfig = Some arincLabel250Config, tx_SM = sm',
                              tx_SDI = SDI azData, engData = slipAngleInDegrees,
                              tx_discreteBits = 0\<rparr>
      in (case snd (ARINC429_AssembleStdBNRmessage txMsgSlipAngle) of
            Some w \<Rightarrow> w | None \<Rightarrow> slipAngleWord_local env,
          st'))"

record TurnRate_env =
  magHeadingData_local :: ARINC429_RxMsgData
  turnRateWord_local :: "32 word"
  now_magHeading :: "32 word"
  IIR_Differentiator_Limited_ret :: real
  pastOutputOfDiff :: real

record TurnRate_state =
  isIIRDiffGood :: bool
  iirDiffGoodCount :: nat

definition CalculateTurnRate ::
    "ARINC429_RxMsgArray \<Rightarrow> TurnRate_env \<Rightarrow> TurnRate_state \<Rightarrow> 32 word \<times> TurnRate_state" where
  "CalculateTurnRate rxMsgArray env st =
     (let (status, magHeadingData) =
            ARINC429_GetLatestLabelData rxMsgArray (FormatLabelNumber 320)
              (magHeadingData_local env) (now_magHeading env);
          (turnRate_dps, sm, st') =
            (if ARINC429_GET_LABEL_DATA_MSG_SUCCESS = status
                \<and> isDataFresh magHeadingData \<and> isNotBabbling magHeadingData
                \<and> ARINC429_SSM_BNR_NORMAL_OPERATION = SM magHeadingData
             then
               (if isIIRDiffGood st then
                  (let dps = IIR_Differentiator_Limited_ret env
                   in (dps, ARINC429_CheckValidityOfARINC_BNR_Data dps arincLabel340Config, st))
                else
                  (let dps = (if 0 = iirDiffGoodCount st then 0 else IIR_Differentiator_Limited_ret env);
                       st1 = st\<lparr>iirDiffGoodCount := iirDiffGoodCount st + 1\<rparr>;
                       st2 = (if iirDiffGoodCount st1 \<ge> filterGoodThreshold
                              then st1\<lparr>isIIRDiffGood := True\<rparr> else st1)
                   in (dps, ARINC429_SSM_BNR_FAILURE_WARNING, st2)))
             else
               (pastOutputOfDiff env, ARINC429_SSM_BNR_FAILURE_WARNING,
                st\<lparr>isIIRDiffGood := False, iirDiffGoodCount := 0\<rparr>));
          txMsgTurnRate = \<lparr>tx_msgConfig = Some arincLabel340Config, tx_SM = sm,
                             tx_SDI = SDI magHeadingData, engData = turnRate_dps,
                             tx_discreteBits = 0\<rparr>
      in (case snd (ARINC429_AssembleStdBNRmessage txMsgTurnRate) of
            Some w \<Rightarrow> w | None \<Rightarrow> turnRateWord_local env,
          st'))"

text \<open>The calculators run once per 50 Hz period; a run is the list of the groups and
  environments of successive calls.\<close>

fun CalculateSlipAngle_calls ::
    "(ARINC429_RxMsgArray \<times> SlipAngle_env) list \<Rightarrow> SlipAngle_state \<Rightarrow> 32 word list \<times> SlipAngle_state" where
  "CalculateSlipAngle_calls [] st = ([], st)"
| "CalculateSlipAngle_calls ((a, env) # cs) st =
     (let (w, st1) = CalculateSlipAngle a env st;
          (ws, st2) = CalculateSlipAngle_calls cs st1
      in (w # ws, st2))"

fun CalculateTurnRate_calls ::
    "(ARINC429_RxMsgArray \<times> TurnRate_env) list \<Rightarrow> TurnRate_state \<Rightarrow> 32 word list \<times> TurnRate_state" where
  "CalculateTurnRate_calls [] st = ([], st)"
| "CalculateTurnRate_calls ((a, env) # cs) st =
     (let (w, st1) = CalculateTurnRate a env st;
          (ws, st2) = CalculateTurnRate_calls cs st1
      in (w # ws, st2))"

text \<open>The validity tests the two calculators apply to the label they filter, and the
  test \<open>CalculateSlipAngle\<close> applies to lateral acceleration.\<close>

definition labelDataValid ::
    "ARINC429_RxMsgArray \<Rightarrow> nat \<Rightarrow> ARINC429_RxMsgData \<Rightarrow> 32 word \<Rightarrow> bool" where
  "labelDataValid rxMsgArray octalLabel local now =
     (case ARINC429_GetLatestLabelData rxMsgArray (FormatLabelNumber octalLabel) local now of
        (status, d) \<Rightarrow>
          ARINC429_GET_LABEL_DATA_MSG_SUCCESS = status
          \<and> isDataFresh d \<and> isNotBabbling d
          \<and> ARINC429_SSM_BNR_NORMAL_OPERATION = SM d)"

definition slipAngle_AZ_valid :: "ARINC429_RxMsgArray \<times> SlipAngle_env \<Rightarrow> bool" where
  "slipAngle_AZ_valid c = labelDataValid (fst c) 333 (azData_local (snd c)) (now_AZ (snd c))"

definition slipAngle_AY_valid :: "ARINC429_RxMsgArray \<times> SlipAngle_env \<Rightarrow> bool" where
  "slipAngle_AY_valid c = labelDataValid (fst c) 332 (ayData_local (snd c)) (now_AY (snd c))"

definition turnRate_valid :: "ARINC429_RxMsgArray \<times> TurnRate_env \<Rightarrow> bool" where
  "turnRate_valid c =
     labelDataValid (fst c) 320 (magHeadingData_local (snd c)) (now_magHeading (snd c))"

definition CalculateARINCLabel272 ::
    "ARINC429_RxMsgArray \<Rightarrow> bool \<Rightarrow> ARINC429_RxMsgData \<Rightarrow> 32 word \<Rightarrow> 32 word" where
  "CalculateARINCLabel272 rxMsgArray hasADCTimedOut lbl271Data_local now =
     (let (status, lbl271Data) =
            ARINC429_GetLatestLabelData rxMsgArray (FormatLabelNumber 271) lbl271Data_local now;
          label272ARINCWord = (0x0000005D :: 32 word)
      in if isDataFresh lbl271Data \<and> isNotBabbling lbl271Data
            \<and> ARINC429_GET_LABEL_DATA_MSG_SUCCESS = status
            \<and> ARINC429_SSM_DIS_NORMAL_OPERATION = SM lbl271Data
         then
           (let w1 = label272ARINCWord OR (rawARINCword lbl271Data AND AHRS_STATUS_SDI_SSM_MASK);
                w2 = (if hasADCTimedOut then w1 OR AHRS_272_BIT_25_SET else w1);
                w3 = (if rawARINCword lbl271Data AND AHRS_LABEL_271_MSU_FAIL_MASK \<noteq> 0
                      then w2 OR 0xC00 else w2)
            in w3)
         else label272ARINCWord OR A429_DISC_SSM_FAIL_MASK)"

section \<open>Software-version generator (SoftwareVersion.c)\<close>

text \<open>
  The module keeps three statics: the table \<open>swVersions[3][16]\<close> of bytes and the two
  indices \<open>msg_idx\<close> and \<open>sys_idx\<close> (both \<open>size_t\<close>). The table is a C array of fixed
  shape, so it is held as a function of the two indices and every access checks the
  bounds \<open>[3][16]\<close>; a read outside them has no defined result in C and is \<open>None\<close> here.
\<close>

record SWVer_state =
  swVersions :: "nat \<Rightarrow> nat \<Rightarrow> 8 word"
  msg_idx :: nat
  sys_idx :: nat

definition NUM_BYTES_PER_SCI_VERSION :: nat where "NUM_BYTES_PER_SCI_VERSION = 16"
definition NUM_AFC004_SCI :: nat where "NUM_AFC004_SCI = 3"
definition MAX_MSG_IDX_VALUE :: nat where "MAX_MSG_IDX_VALUE = 16"
definition MAX_SYS_IDX_VALUE :: nat where "MAX_SYS_IDX_VALUE = 3"

definition ARINC429_SWVERSION_LABEL :: "32 word" where "ARINC429_SWVERSION_LABEL = 0x0000007F"

text \<open>\<open>subsystemVersionArray = { CC_AFC004, CC_ADC, CC_PAOA }\<close>\<close>

definition subsystemVersionArray :: "8 word list" where
  "subsystemVersionArray = [0x12, 0x16, 0x17]"

text \<open>The word assembled in the first half of \<open>SWVer_GetNextVersionARINCMsg\<close>.\<close>

definition swVersionARINC429Word :: "8 word \<Rightarrow> 8 word \<Rightarrow> nat \<Rightarrow> 8 word \<Rightarrow> 32 word" where
  "swVersionARINC429Word sdi subSys msgSubIdx byte =
     ARINC429_SWVERSION_LABEL
       OR push_bit 8 (ucast sdi)
       OR push_bit 23 (ucast subSys)
       OR push_bit 18 (of_nat msgSubIdx)
       OR push_bit 10 (ucast byte)"

definition SWVer_GetNextVersionARINCMsg ::
    "8 word \<Rightarrow> SWVer_state \<Rightarrow> (32 word \<times> SWVer_state) option" where
  "SWVer_GetNextVersionARINCMsg sdi s =
     (if sys_idx s < NUM_AFC004_SCI \<and> msg_idx s < NUM_BYTES_PER_SCI_VERSION then
        let w = swVersionARINC429Word sdi (subsystemVersionArray ! sys_idx s) (msg_idx s)
                  (swVersions s (sys_idx s) (msg_idx s));
            s1 = s\<lparr>msg_idx := msg_idx s + 1\<rparr>;
            s2 = (if MAX_MSG_IDX_VALUE = msg_idx s1 then
                    let s3 = s1\<lparr>msg_idx := 0, sys_idx := sys_idx s1 + 1\<rparr>
                    in (if sys_idx s3 = MAX_SYS_IDX_VALUE then s3\<lparr>sys_idx := 0\<rparr> else s3)
                  else s1)
        in Some (w, s2)
      else None)"

text \<open>\<open>n\<close> successive calls (the 10 Hz task calls the function once per period),
  collecting the emitted words in order.\<close>

fun SWVer_calls :: "nat \<Rightarrow> 8 word \<Rightarrow> SWVer_state \<Rightarrow> (32 word list \<times> SWVer_state) option" where
  "SWVer_calls 0 sdi s = Some ([], s)"
| "SWVer_calls (Suc n) sdi s =
     (case SWVer_GetNextVersionARINCMsg sdi s of
        None \<Rightarrow> None
      | Some (w, s') \<Rightarrow>
          (case SWVer_calls n sdi s' of
             None \<Rightarrow> None
           | Some (ws, s'') \<Rightarrow> Some (w # ws, s'')))"

text \<open>Position of the indices in the table read row by row, and the word the
  generator emits for the entry at a position.\<close>

definition SWVer_pos :: "SWVer_state \<Rightarrow> nat" where
  "SWVer_pos s = 16 * sys_idx s + msg_idx s"

definition SWVer_word_at :: "8 word \<Rightarrow> SWVer_state \<Rightarrow> nat \<Rightarrow> 32 word" where
  "SWVer_word_at sdi s p =
     swVersionARINC429Word sdi (subsystemVersionArray ! (p div 16)) (p mod 16)
       (swVersions s (p div 16) (p mod 16))"

section \<open>Example data\<close>

text \<open>A receive group holding the discrete label 271, whose last word was received at
  time 100 with the MSU-fail bit set.\<close>

definition example_slot271 :: ARINC429_RxMsg where
  "example_slot271 =
     \<lparr>msgConfig = \<lparr>label = 0x9D, msgType = ARINC429_DISCRETE_MSG, numSigBits = 0,
        numSigDigits = 0, resolution = 0, maxValidValue = 0, minValidValue = 0,
        numDiscreteBits = 19, minTransmitInterval_ms = 10, maxTransmitInterval_ms = 25\<rparr>,
      data = \<lparr>rawARINCword = 0x0000079D, SM = 0, SDI = 3, engDataFloat = 0, engDataInt = 0,
        discreteBits = 1, sysTimeLastGoodMsg_ms = 100, isEngDataInBounds = False,
        isNotBabbling = True, isDataFresh = False\<rparr>\<rparr>"

definition example_group271 :: ARINC429_RxMsgArray where
  "example_group271 =
     \<lparr>rxMsgs = [example_slot271], maxBusFailureCounts = 10, currentCounts = 0,
      hasBusFailed = False\<rparr>"

text \<open>A receive group holding the five-digit BCD label 235 (baro correction), and a group
  of 65 BNR slots whose labels are 0, 1, ..., 64 in this order.\<close>

definition example_slot235 :: ARINC429_RxMsg where
  "example_slot235 =
     \<lparr>msgConfig = \<lparr>label = 0xB9, msgType = ARINC429_STD_BCD_MSG, numSigBits = 19,
        numSigDigits = 5, resolution = 1 / 1000, maxValidValue = 0, minValidValue = 0,
        numDiscreteBits = 0, minTransmitInterval_ms = 10, maxTransmitInterval_ms = 25\<rparr>,
      data = \<lparr>rawARINCword = 0x0A6484B9, SM = 0, SDI = 0, engDataFloat = 29921 / 1000,
        engDataInt = 30, discreteBits = 0, sysTimeLastGoodMsg_ms = 100,
        isEngDataInBounds = False, isNotBabbling = True, isDataFresh = False\<rparr>\<rparr>"

definition example_group235 :: ARINC429_RxMsgArray where
  "example_group235 =
     \<lparr>rxMsgs = [example_slot235], maxBusFailureCounts = 10, currentCounts = 0,
      hasBusFailed = False\<rparr>"



section \<open>Auxiliary notions for the statements\<close>

text \<open>The word that the second half of \<open>ARINC429_AssembleStdBNRmessage\<close> builds around a
  data field, with the constants of the header written as bit masks.\<close>

definition BNR_word :: "ARINC429_LabelConfig \<Rightarrow> ARINC429_TxMsg \<Rightarrow> 32 word \<Rightarrow> 32 word" where
  "BNR_word cfg tx df =
     ucast (label cfg)
       OR (push_bit (28 - numSigBits cfg) df
             AND (if numSigBits cfg = 20 then push_bit 8 (mask 21)
                  else if numSigBits cfg = 19 then push_bit 9 (mask 20)
                  else push_bit 10 (mask 19)))
       OR (if numDiscreteBits cfg > 0
           then push_bit 10 (tx_discreteBits tx AND mask (numDiscreteBits cfg)) else 0)
       OR (if numSigBits cfg \<le> 18 then push_bit 8 (ucast (tx_SDI tx) AND mask 2) else 0)
       OR push_bit 29 (ucast (tx_SM tx) AND mask 2)"

text \<open>The SSM that \<open>CalculateSlipAngle\<close> transmits once its filter is good: the range
  check of the computed angle, overridden by a failure warning when lateral acceleration
  is not valid.\<close>

definition slipAngle_checked_SSM :: "ARINC429_RxMsgArray \<times> SlipAngle_env \<Rightarrow> ARINC429_SM" where
  "slipAngle_checked_SSM c =
     (if slipAngle_AY_valid c
      then ARINC429_CheckValidityOfARINC_BNR_Data
             (radToDeg (f32_ArcTan2_ret (snd c))) arincLabel250Config
      else ARINC429_SSM_BNR_FAILURE_WARNING)"

text \<open>An AHRS receive group with magnetic heading (320), lateral acceleration (332) and
  normal acceleration (333), all received at time 100 with SSM normal operation, and the
  environments of a calculator call at time 110 in which the external filter and
  arctangent calls return 0. Read at time 200 instead, the labels are stale.\<close>

definition example_slot_BNR :: "8 word \<Rightarrow> ARINC429_RxMsg" where
  "example_slot_BNR lbl =
     \<lparr>msgConfig = \<lparr>label = lbl, msgType = ARINC429_STD_BNR_MSG, numSigBits = 12,
        numSigDigits = 0, resolution = 1 / 1024, maxValidValue = 4, minValidValue = - 4,
        numDiscreteBits = 0, minTransmitInterval_ms = 15, maxTransmitInterval_ms = 25\<rparr>,
      data = \<lparr>rawARINCword = 0x60000000 OR ucast lbl, SM = 3, SDI = 0, engDataFloat = 0,
        engDataInt = 0, discreteBits = 0, sysTimeLastGoodMsg_ms = 100,
        isEngDataInBounds = False, isNotBabbling = True, isDataFresh = False\<rparr>\<rparr>"

definition example_groupAHRS :: ARINC429_RxMsgArray where
  "example_groupAHRS =
     \<lparr>rxMsgs = [example_slot_BNR 0x0B, example_slot_BNR 0x5B, example_slot_BNR 0xDB],
      maxBusFailureCounts = 10, currentCounts = 0, hasBusFailed = False\<rparr>"

definition example_slip_env :: SlipAngle_env where
  "example_slip_env =
     \<lparr>ayData_local = data (example_slot_BNR 0), azData_local = data (example_slot_BNR 0),
      slipAngleWord_local = 0, now_AY = 110, now_AZ = 110, f32_ArcTan2_ret = 0\<rparr>"

definition example_slip_cycle :: "ARINC429_RxMsgArray \<times> SlipAngle_env" where
  "example_slip_cycle = (example_groupAHRS, example_slip_env)"

definition example_turn_env :: TurnRate_env where
  "example_turn_env =
     \<lparr>magHeadingData_local = data (example_slot_BNR 0), turnRateWord_local = 0,
      now_magHeading = 110, IIR_Differentiator_Limited_ret = 0, pastOutputOfDiff = 0\<rparr>"

definition example_turn_cycle :: "ARINC429_RxMsgArray \<times> TurnRate_env" where
  "example_turn_cycle = (example_groupAHRS, example_turn_env)"

definition SlipAngle_reset :: SlipAngle_state where
  "SlipAngle_reset = \<lparr>isIIRSlipFilterGood = False, iirFilterGoodCount = 0\<rparr>"

definition TurnRate_reset :: TurnRate_state where
  "TurnRate_reset = \<lparr>isIIRDiffGood = False, iirDiffGoodCount = 0\<rparr>"









declare BCDvalToEngVal_loop.simps [simp del]
declare labelMatch_loop.simps [simp del]

section \<open>The software-version indices\<close>

lemma SWVer_step:
  assumes "msg_idx s < 16" and "sys_idx s < 3"
  shows "\<exists>s'. SWVer_GetNextVersionARINCMsg sdi s = Some (SWVer_word_at sdi s (SWVer_pos s), s')
     \<and> swVersions s' = swVersions s
     \<and> msg_idx s' = (if msg_idx s + 1 = 16 then 0 else msg_idx s + 1)
     \<and> sys_idx s' = (if msg_idx s + 1 = 16
                      then (if sys_idx s + 1 = 3 then 0 else sys_idx s + 1) else sys_idx s)"
  using assms
  by (auto simp: SWVer_GetNextVersionARINCMsg_def SWVer_word_at_def SWVer_pos_def Let_def
       NUM_AFC004_SCI_def NUM_BYTES_PER_SCI_VERSION_def MAX_MSG_IDX_VALUE_def MAX_SYS_IDX_VALUE_def)

lemma SWVer_step_pos:
  assumes "msg_idx s < 16" and "sys_idx s < 3"
    and "SWVer_GetNextVersionARINCMsg sdi s = Some (w, s')"
  shows "msg_idx s' < 16 \<and> sys_idx s' < 3 \<and> SWVer_pos s' = (SWVer_pos s + 1) mod 48
      \<and> swVersions s' = swVersions s \<and> w = SWVer_word_at sdi s (SWVer_pos s)"
  using SWVer_step[OF assms(1,2), of sdi] assms
  by (auto simp: SWVer_pos_def split: if_splits)

lemma SWVer_word_at_same_table:
  "swVersions s' = swVersions s \<Longrightarrow> SWVer_word_at sdi s' p = SWVer_word_at sdi s p"
  by (simp add: SWVer_word_at_def)

lemma SWVer_calls_walk:
  "msg_idx s < 16 \<Longrightarrow> sys_idx s < 3 \<Longrightarrow>
   \<exists>ws s'. SWVer_calls n sdi s = Some (ws, s') \<and> length ws = n
     \<and> (\<forall>k<n. ws ! k = SWVer_word_at sdi s ((SWVer_pos s + k) mod 48))
     \<and> msg_idx s' < 16 \<and> sys_idx s' < 3 \<and> swVersions s' = swVersions s
     \<and> SWVer_pos s' = (SWVer_pos s + n) mod 48"
proof (induction n arbitrary: s)
  case 0
  then show ?case by (simp add: SWVer_pos_def)
next
  case (Suc n)
  from SWVer_step[OF Suc.prems, of sdi] obtain s1 where
    st: "SWVer_GetNextVersionARINCMsg sdi s = Some (SWVer_word_at sdi s (SWVer_pos s), s1)"
    by blast
  note p = SWVer_step_pos[OF Suc.prems st]
  from Suc.IH[of s1] p obtain ws s' where
    r: "SWVer_calls n sdi s1 = Some (ws, s')" "length ws = n"
       "\<forall>k<n. ws ! k = SWVer_word_at sdi s1 ((SWVer_pos s1 + k) mod 48)"
       "msg_idx s' < 16" "sys_idx s' < 3" "swVersions s' = swVersions s1"
       "SWVer_pos s' = (SWVer_pos s1 + n) mod 48"
    by blast
  have pos0: "SWVer_pos s < 48"
    using Suc.prems by (simp add: SWVer_pos_def)
  have "\<forall>k<Suc n. (SWVer_word_at sdi s (SWVer_pos s) # ws) ! k
          = SWVer_word_at sdi s ((SWVer_pos s + k) mod 48)"
  proof (intro allI impI)
    fix k assume "k < Suc n"
    show "(SWVer_word_at sdi s (SWVer_pos s) # ws) ! k
            = SWVer_word_at sdi s ((SWVer_pos s + k) mod 48)"
    proof (cases k)
      case 0
      then show ?thesis using pos0 by simp
    next
      case (Suc j)
      with \<open>k < Suc n\<close> have "j < n" by simp
      with r(3) have "ws ! j = SWVer_word_at sdi s1 ((SWVer_pos s1 + j) mod 48)" by blast
      also have "\<dots> = SWVer_word_at sdi s (((SWVer_pos s + 1) mod 48 + j) mod 48)"
        using p SWVer_word_at_same_table[of s1 s sdi] by simp
      also have "((SWVer_pos s + 1) mod 48 + j) mod 48 = (SWVer_pos s + Suc j) mod 48"
        by (simp add: mod_add_left_eq)
      finally show ?thesis using Suc by simp
    qed
  qed
  moreover have "SWVer_pos s' = (SWVer_pos s + Suc n) mod 48"
    using r(7) p by (simp add: mod_add_left_eq)
  ultimately show ?case using st r p by simp
qed

text \<open>
  Claim C10. A call of \<open>SWVer_GetNextVersionARINCMsg\<close> with \<open>msg_idx\<close> in \<open>[0,15]\<close> and
  \<open>sys_idx\<close> in \<open>[0,2]\<close> reads the table inside its bounds, advances \<open>msg_idx\<close> by one,
  resets it to 0 when it reaches 16 and then advances \<open>sys_idx\<close>, which resets to 0 when
  it reaches 3; both indices are in range again after the call. Any number \<open>n\<close> of
  successive calls therefore succeeds, and the \<open>k\<close>-th word emitted is the word of the
  table entry \<open>k\<close> places further on, counting row by row and wrapping after the 48th
  entry.
\<close>

theorem SWVer_GetNextVersionARINCMsg_walks_table:
  assumes "msg_idx s < 16" and "sys_idx s < 3"
  shows "(\<exists>w s1. SWVer_GetNextVersionARINCMsg sdi s = Some (w, s1)
            \<and> w = swVersionARINC429Word sdi (subsystemVersionArray ! sys_idx s) (msg_idx s)
                      (swVersions s (sys_idx s) (msg_idx s))
            \<and> msg_idx s1 = (if msg_idx s + 1 = 16 then 0 else msg_idx s + 1)
            \<and> sys_idx s1 = (if msg_idx s + 1 = 16
                             then (if sys_idx s + 1 = 3 then 0 else sys_idx s + 1)
                             else sys_idx s)
            \<and> msg_idx s1 < 16 \<and> sys_idx s1 < 3)
       \<and> (\<exists>ws s'. SWVer_calls n sdi s = Some (ws, s') \<and> length ws = n
            \<and> (\<forall>k<n. ws ! k = SWVer_word_at sdi s ((16 * sys_idx s + msg_idx s + k) mod 48))
            \<and> msg_idx s' < 16 \<and> sys_idx s' < 3
            \<and> 16 * sys_idx s' + msg_idx s' = (16 * sys_idx s + msg_idx s + n) mod 48)"
proof -
  from SWVer_step[OF assms, of sdi] obtain s1 where
    st: "SWVer_GetNextVersionARINCMsg sdi s = Some (SWVer_word_at sdi s (SWVer_pos s), s1)"
      "msg_idx s1 = (if msg_idx s + 1 = 16 then 0 else msg_idx s + 1)"
      "sys_idx s1 = (if msg_idx s + 1 = 16
                     then (if sys_idx s + 1 = 3 then 0 else sys_idx s + 1) else sys_idx s)"
    by blast
  have w: "SWVer_word_at sdi s (SWVer_pos s)
             = swVersionARINC429Word sdi (subsystemVersionArray ! sys_idx s) (msg_idx s)
                 (swVersions s (sys_idx s) (msg_idx s))"
    using assms by (simp add: SWVer_word_at_def SWVer_pos_def)
  have rng: "msg_idx s1 < 16 \<and> sys_idx s1 < 3"
    using SWVer_step_pos[OF assms st(1)] by simp
  have one: "\<exists>w s1. SWVer_GetNextVersionARINCMsg sdi s = Some (w, s1)
            \<and> w = swVersionARINC429Word sdi (subsystemVersionArray ! sys_idx s) (msg_idx s)
                      (swVersions s (sys_idx s) (msg_idx s))
            \<and> msg_idx s1 = (if msg_idx s + 1 = 16 then 0 else msg_idx s + 1)
            \<and> sys_idx s1 = (if msg_idx s + 1 = 16
                             then (if sys_idx s + 1 = 3 then 0 else sys_idx s + 1)
                             else sys_idx s)
            \<and> msg_idx s1 < 16 \<and> sys_idx s1 < 3"
    using st w rng by metis
  from SWVer_calls_walk[OF assms, of n sdi] have many:
    "\<exists>ws s'. SWVer_calls n sdi s = Some (ws, s') \<and> length ws = n
            \<and> (\<forall>k<n. ws ! k = SWVer_word_at sdi s ((16 * sys_idx s + msg_idx s + k) mod 48))
            \<and> msg_idx s' < 16 \<and> sys_idx s' < 3
            \<and> 16 * sys_idx s' + msg_idx s' = (16 * sys_idx s + msg_idx s + n) mod 48"
    unfolding SWVer_pos_def by blast
  from one many show ?thesis by (rule conjI)
qed

theorem SWVer_GetNextVersionARINCMsg_walks_table_witness:
  "msg_idx \<lparr>swVersions = (\<lambda>i j. of_nat (16 * i + j)), msg_idx = 15, sys_idx = 2\<rparr> < 16
   \<and> sys_idx \<lparr>swVersions = (\<lambda>i j. of_nat (16 * i + j)), msg_idx = 15, sys_idx = 2\<rparr> < 3
   \<and> (\<exists>s'. SWVer_calls 2 1 \<lparr>swVersions = (\<lambda>i j. of_nat (16 * i + j)), msg_idx = 15, sys_idx = 2\<rparr>
               = Some ([0x0BBCBD7F, 0x0900017F], s')
          \<and> msg_idx s' < 16 \<and> sys_idx s' < 3 \<and> 16 * sys_idx s' + msg_idx s' = 1)"
proof -
  let ?s = "\<lparr>swVersions = (\<lambda>i j. of_nat (16 * i + j)), msg_idx = 15, sys_idx = 2\<rparr>"
  have h1: "msg_idx ?s < 16" and h2: "sys_idx ?s < 3" by simp_all
  from SWVer_GetNextVersionARINCMsg_walks_table[OF h1 h2, of 1 2]
  obtain ws s' where r: "SWVer_calls 2 1 ?s = Some (ws, s')" "length ws = 2"
     "\<forall>k<2. ws ! k = SWVer_word_at 1 ?s ((16 * sys_idx ?s + msg_idx ?s + k) mod 48)"
     "msg_idx s' < 16" "sys_idx s' < 3"
     "16 * sys_idx s' + msg_idx s' = (16 * sys_idx ?s + msg_idx ?s + 2) mod 48"
    by blast
  have "ws ! 0 = 0x0BBCBD7F" "ws ! 1 = 0x0900017F"
    using r(3) by (simp_all add: SWVer_word_at_def swVersionARINC429Word_def subsystemVersionArray_def
        ARINC429_SWVERSION_LABEL_def)
  with r(2) have "ws = [0x0BBCBD7F, 0x0900017F]"
    by (cases ws; cases "tl ws") auto
  with r h1 h2 show ?thesis by simp
qed

section \<open>The label search\<close>

lemma labelMatch_loop_Some:
  "labelMatch_loop P msgs c = Some i \<Longrightarrow>
     c \<le> i \<and> i < length msgs \<and> i < maxNumRxMsgsInArray \<and> P (msgs ! i)
     \<and> (\<forall>j. c \<le> j \<and> j < i \<longrightarrow> \<not> P (msgs ! j))"
proof (induction P msgs c rule: labelMatch_loop.induct)
  case (1 P msgs c)
  show ?case
  proof (cases "c < length msgs \<and> c < maxNumRxMsgsInArray")
    case False
    with "1.prems" show ?thesis by (simp add: labelMatch_loop.simps)
  next
    case inb: True
    show ?thesis
    proof (cases "P (msgs ! c)")
      case True
      with inb "1.prems" have "i = c" by (simp add: labelMatch_loop.simps)
      with inb True show ?thesis by auto
    next
      case False
      with inb "1.prems" have "labelMatch_loop P msgs (c + 1) = Some i"
        by (simp add: labelMatch_loop.simps)
      from "1.IH"[OF inb False this] have ih: "c + 1 \<le> i" "i < length msgs" "i < maxNumRxMsgsInArray"
        "P (msgs ! i)" "\<forall>j. c + 1 \<le> j \<and> j < i \<longrightarrow> \<not> P (msgs ! j)" by simp_all
      have "\<forall>j. c \<le> j \<and> j < i \<longrightarrow> \<not> P (msgs ! j)"
      proof (intro allI impI)
        fix j assume "c \<le> j \<and> j < i"
        then show "\<not> P (msgs ! j)" using False ih(5) by (cases "j = c") auto
      qed
      with ih show ?thesis by simp
    qed
  qed
qed

lemma labelMatch_loop_None:
  "labelMatch_loop P msgs c = None \<Longrightarrow>
     (\<forall>j. c \<le> j \<and> j < length msgs \<and> j < maxNumRxMsgsInArray \<longrightarrow> \<not> P (msgs ! j))"
proof (induction P msgs c rule: labelMatch_loop.induct)
  case (1 P msgs c)
  show ?case
  proof (cases "c < length msgs \<and> c < maxNumRxMsgsInArray")
    case False
    then show ?thesis by auto
  next
    case inb: True
    have nP: "\<not> P (msgs ! c)"
      using inb "1.prems" by (auto simp: labelMatch_loop.simps[of P msgs c] split: if_splits)
    with inb "1.prems" have "labelMatch_loop P msgs (c + 1) = None"
      by (simp add: labelMatch_loop.simps[of P msgs c])
    from "1.IH"[OF inb nP this] have ih:
      "\<forall>j. c + 1 \<le> j \<and> j < length msgs \<and> j < maxNumRxMsgsInArray \<longrightarrow> \<not> P (msgs ! j)" .
    show ?thesis
    proof (intro allI impI)
      fix j assume "c \<le> j \<and> j < length msgs \<and> j < maxNumRxMsgsInArray"
      then show "\<not> P (msgs ! j)" using nP ih by (cases "j = c") auto
    qed
  qed
qed

lemma labelMatch_loop_first:
  assumes "i < length msgs" "i < maxNumRxMsgsInArray" "P (msgs ! i)"
    and "\<forall>j<i. \<not> P (msgs ! j)"
  shows "labelMatch_loop P msgs 0 = Some i"
proof (cases "labelMatch_loop P msgs 0")
  case None
  from labelMatch_loop_None[OF this] assms show ?thesis by auto
next
  case (Some k)
  from labelMatch_loop_Some[OF this] have k: "k < length msgs" "P (msgs ! k)" "\<forall>j. j < k \<longrightarrow> \<not> P (msgs ! j)"
    by simp_all
  have "k = i"
  proof (rule ccontr)
    assume "k \<noteq> i"
    then consider "k < i" | "i < k" by linarith
    then show False using k assms by cases auto
  qed
  with Some show ?thesis by simp
qed

section \<open>Status word 272\<close>

text \<open>
  Claim C8. When the read of label 271 succeeds with fresh, non-babbling data whose SM is
  discrete normal operation, the raw word of 271 has the MSU-fail bit (mask \<open>0x400\<close>) set
  and the ADC has timed out, the word returned by \<open>CalculateARINCLabel272\<close> has bits 10,
  11 and 25 set, agrees with the raw word of 271 on the bits of
  \<open>AHRS_STATUS_SDI_SSM_MASK = 0x60000300\<close>, and carries the label byte \<open>0x5D\<close>.
\<close>

theorem CalculateARINCLabel272_MSU_fail_ADC_timeout:
  assumes "ARINC429_GetLatestLabelData rxMsgArray (FormatLabelNumber 271) lbl271Data_local now
             = (ARINC429_GET_LABEL_DATA_MSG_SUCCESS, lbl271Data)"
    and "isDataFresh lbl271Data"
    and "isNotBabbling lbl271Data"
    and "SM lbl271Data = ARINC429_SSM_DIS_NORMAL_OPERATION"
    and "rawARINCword lbl271Data AND 0x400 \<noteq> 0"
  shows "bit (CalculateARINCLabel272 rxMsgArray True lbl271Data_local now) (10::nat)
       \<and> bit (CalculateARINCLabel272 rxMsgArray True lbl271Data_local now) (11::nat)
       \<and> bit (CalculateARINCLabel272 rxMsgArray True lbl271Data_local now) (25::nat)
       \<and> CalculateARINCLabel272 rxMsgArray True lbl271Data_local now AND AHRS_STATUS_SDI_SSM_MASK
           = rawARINCword lbl271Data AND 0x60000300
       \<and> CalculateARINCLabel272 rxMsgArray True lbl271Data_local now AND 0xFF = 0x5D"
  using assms
  by (simp add: CalculateARINCLabel272_def AHRS_STATUS_SDI_SSM_MASK_def AHRS_272_BIT_25_SET_def
        AHRS_LABEL_271_MSU_FAIL_MASK_def bit_or_iff bit.conj_disj_distrib2 and.assoc)

theorem CalculateARINCLabel272_MSU_fail_ADC_timeout_witness:
  "ARINC429_GetLatestLabelData example_group271 (FormatLabelNumber 271) (data example_slot271) 120
     = (ARINC429_GET_LABEL_DATA_MSG_SUCCESS, (data example_slot271)\<lparr>isDataFresh := True\<rparr>)
   \<and> (0x0000079D :: 32 word) AND 0x400 \<noteq> 0
   \<and> CalculateARINCLabel272 example_group271 True (data example_slot271) 120 = 0x02000F5D
   \<and> bit (CalculateARINCLabel272 example_group271 True (data example_slot271) 120) (25::nat)
   \<and> CalculateARINCLabel272 example_group271 True (data example_slot271) 120 AND 0xFF = 0x5D"
proof -
  let ?d = "(data example_slot271)\<lparr>isDataFresh := True\<rparr>"
  have rd: "ARINC429_GetLatestLabelData example_group271 (FormatLabelNumber 271)
              (data example_slot271) 120 = (ARINC429_GET_LABEL_DATA_MSG_SUCCESS, ?d)"
    by (simp add: example_group271_def example_slot271_def ARINC429_GetLatestLabelData_def
          labelMatch_loop.simps FormatLabelNumber_def RevBitsInByte_def maxNumRxMsgsInArray_def
          ARINC429_IsLabelDataFresh_def)
  have fresh: "isDataFresh ?d" by simp
  have quiet: "isNotBabbling ?d" by (simp add: example_slot271_def)
  have sm: "SM ?d = ARINC429_SSM_DIS_NORMAL_OPERATION"
    by (simp add: example_slot271_def ARINC429_SSM_DIS_NORMAL_OPERATION_def)
  have msu: "rawARINCword ?d AND 0x400 \<noteq> 0" by (simp add: example_slot271_def)
  have val: "CalculateARINCLabel272 example_group271 True (data example_slot271) 120 = 0x02000F5D"
    using rd
    by (simp add: CalculateARINCLabel272_def example_slot271_def
          ARINC429_SSM_DIS_NORMAL_OPERATION_def AHRS_STATUS_SDI_SSM_MASK_def
          AHRS_272_BIT_25_SET_def AHRS_LABEL_271_MSU_FAIL_MASK_def)
  from CalculateARINCLabel272_MSU_fail_ADC_timeout[OF rd fresh quiet sm msu] rd val
  show ?thesis by simp
qed

section \<open>The receive pipeline\<close>

lemma ProcessStdBNRmessage_frame:
  "ARINC429_ProcessStdBNRmessage m w = (st, m') \<Longrightarrow>
     msgConfig m' = msgConfig m
     \<and> sysTimeLastGoodMsg_ms (data m') = sysTimeLastGoodMsg_ms (data m)
     \<and> rawARINCword (data m') = w
     \<and> (st \<noteq> ARINC429_READ_MSG_SUCCESS \<longrightarrow>
          st = ARINC429_READ_MSG_ERROR \<and> data m' = (data m)\<lparr>rawARINCword := w\<rparr>)"
  by (auto simp: ARINC429_ProcessStdBNRmessage_def Let_def split: option.splits)

lemma ProcessStdBCDmessage_frame:
  "ARINC429_ProcessStdBCDmessage m w = (st, m') \<Longrightarrow>
     msgConfig m' = msgConfig m
     \<and> sysTimeLastGoodMsg_ms (data m') = sysTimeLastGoodMsg_ms (data m)
     \<and> rawARINCword (data m') = rawARINCword (data m)
     \<and> (st \<noteq> ARINC429_READ_MSG_SUCCESS \<longrightarrow>
          st = ARINC429_READ_MSG_ERROR_INVALID_MESSAGE \<and> m' = m)"
  by (auto simp: ARINC429_ProcessStdBCDmessage_def Let_def split: option.splits if_splits)

lemma ProcessDiscreteMessage_frame:
  "ARINC429_ProcessDiscreteMessage m w = (st, m') \<Longrightarrow>
     msgConfig m' = msgConfig m
     \<and> sysTimeLastGoodMsg_ms (data m') = sysTimeLastGoodMsg_ms (data m)
     \<and> rawARINCword (data m') = rawARINCword (data m)
     \<and> (st \<noteq> ARINC429_READ_MSG_SUCCESS \<longrightarrow> st = ARINC429_READ_MSG_ERROR \<and> m' = m)"
  by (auto simp: ARINC429_ProcessDiscreteMessage_def Let_def split: if_splits)


lemma ProcessReceivedMessage_match:
  assumes "labelMatch_loop (\<lambda>m. label (msgConfig m) = ucast (w AND 0xFF)) (rxMsgs a) 0 = Some i"
  shows "\<exists>st m'. ARINC429_ProcessReceivedMessage a w now = (st, a\<lparr>rxMsgs := (rxMsgs a)[i := m']\<rparr>)
       \<and> st \<noteq> ARINC429_READ_MSG_ERROR_NO_MATCHING_LABEL
       \<and> msgConfig m' = msgConfig (rxMsgs a ! i)
       \<and> rawARINCword (data m') = w
       \<and> (st = ARINC429_READ_MSG_SUCCESS \<longrightarrow>
            sysTimeLastGoodMsg_ms (data m') = now
            \<and> isNotBabbling (data m')
                = (now - sysTimeLastGoodMsg_ms (data (rxMsgs a ! i))
                     \<ge> ucast (minTransmitInterval_ms (msgConfig (rxMsgs a ! i)))))
       \<and> (st \<noteq> ARINC429_READ_MSG_SUCCESS \<longrightarrow>
            (st = ARINC429_READ_MSG_ERROR \<or> st = ARINC429_READ_MSG_ERROR_INVALID_MESSAGE)
            \<and> data m' = (data (rxMsgs a ! i))\<lparr>rawARINCword := w\<rparr>)"
proof -
  let ?m = "rxMsgs a ! i"
  let ?stored = "?m\<lparr>data := (data ?m)\<lparr>rawARINCword := w\<rparr>\<rparr>"
  obtain st p where dec:
    "(case msgType (msgConfig ?m) of
        ARINC429_STD_BNR_MSG \<Rightarrow> ARINC429_ProcessStdBNRmessage ?m w
      | ARINC429_STD_BCD_MSG \<Rightarrow> ARINC429_ProcessStdBCDmessage ?stored w
      | ARINC429_DISCRETE_MSG \<Rightarrow> ARINC429_ProcessDiscreteMessage ?stored w) = (st, p)"
    by (cases "case msgType (msgConfig ?m) of
        ARINC429_STD_BNR_MSG \<Rightarrow> ARINC429_ProcessStdBNRmessage ?m w
      | ARINC429_STD_BCD_MSG \<Rightarrow> ARINC429_ProcessStdBCDmessage ?stored w
      | ARINC429_DISCRETE_MSG \<Rightarrow> ARINC429_ProcessDiscreteMessage ?stored w") auto
  have fr: "msgConfig p = msgConfig ?m
     \<and> sysTimeLastGoodMsg_ms (data p) = sysTimeLastGoodMsg_ms (data ?m)
     \<and> rawARINCword (data p) = w
     \<and> (st \<noteq> ARINC429_READ_MSG_SUCCESS \<longrightarrow>
          (st = ARINC429_READ_MSG_ERROR \<or> st = ARINC429_READ_MSG_ERROR_INVALID_MESSAGE)
          \<and> data p = (data ?m)\<lparr>rawARINCword := w\<rparr>)"
  proof (cases "msgType (msgConfig ?m)")
    case ARINC429_STD_BNR_MSG
    with dec have "ARINC429_ProcessStdBNRmessage ?m w = (st, p)" by simp
    from ProcessStdBNRmessage_frame[OF this] show ?thesis by auto
  next
    case ARINC429_STD_BCD_MSG
    with dec have "ARINC429_ProcessStdBCDmessage ?stored w = (st, p)" by simp
    from ProcessStdBCDmessage_frame[OF this] show ?thesis by auto
  next
    case ARINC429_DISCRETE_MSG
    with dec have "ARINC429_ProcessDiscreteMessage ?stored w = (st, p)" by simp
    from ProcessDiscreteMessage_frame[OF this] show ?thesis by auto
  qed
  let ?stamped = "if st = ARINC429_READ_MSG_SUCCESS
                  then p\<lparr>data := (data p)\<lparr>isNotBabbling := ARINC429_IsLabelDataNotBabbling now p,
                                           sysTimeLastGoodMsg_ms := now\<rparr>\<rparr>
                  else p"
  have run: "ARINC429_ProcessReceivedMessage a w now = (st, a\<lparr>rxMsgs := (rxMsgs a)[i := ?stamped]\<rparr>)"
    using assms dec
    by (simp add: ARINC429_ProcessReceivedMessage_def ARINC429_LBL_MASK_def Let_def)
  have "st \<noteq> ARINC429_READ_MSG_ERROR_NO_MATCHING_LABEL"
    using fr by (cases "st = ARINC429_READ_MSG_SUCCESS") auto
  moreover have "msgConfig ?stamped = msgConfig ?m" using fr by simp
  moreover have "rawARINCword (data ?stamped) = w" using fr by simp
  moreover have "st = ARINC429_READ_MSG_SUCCESS \<longrightarrow>
            sysTimeLastGoodMsg_ms (data ?stamped) = now
            \<and> isNotBabbling (data ?stamped)
                = (now - sysTimeLastGoodMsg_ms (data ?m)
                     \<ge> ucast (minTransmitInterval_ms (msgConfig ?m)))"
    using fr by (simp add: ARINC429_IsLabelDataNotBabbling_def)
  moreover have "st \<noteq> ARINC429_READ_MSG_SUCCESS \<longrightarrow>
            (st = ARINC429_READ_MSG_ERROR \<or> st = ARINC429_READ_MSG_ERROR_INVALID_MESSAGE)
            \<and> data ?stamped = (data ?m)\<lparr>rawARINCword := w\<rparr>"
    using fr by simp
  ultimately show ?thesis using run by blast
qed




text \<open>
  Claim C4, as stated, fails for the raw word: \<open>ARINC429_ProcessReceivedMessage\<close> stores
  the received word in the slot before the decoder runs. A word for label 235 whose
  lowest BCD digit is \<open>0xA\<close> is rejected with \<open>ARINC429_READ_MSG_ERROR_INVALID_MESSAGE\<close>, and
  the slot's \<open>rawARINCword\<close> is that word afterwards.
\<close>

theorem ProcessReceivedMessage_decode_error_counterexample:
  "fst (ARINC429_ProcessReceivedMessage example_group235 0x000028B9 150)
     = ARINC429_READ_MSG_ERROR_INVALID_MESSAGE
   \<and> rawARINCword (data (rxMsgs example_group235 ! 0)) = 0x0A6484B9
   \<and> rawARINCword (data (rxMsgs (snd (ARINC429_ProcessReceivedMessage example_group235 0x000028B9 150)) ! 0))
       = 0x000028B9"
  by code_simp

text \<open>
  Claim C4, amended. Let slot \<open>i\<close> be the slot that the search finds for the label of the
  word (the first slot with that label, among the first 64). If the type-specific decode
  fails, \<open>ARINC429_ProcessReceivedMessage\<close> returns the decoder's error
  (\<open>ARINC429_READ_MSG_ERROR\<close> or \<open>ARINC429_READ_MSG_ERROR_INVALID_MESSAGE\<close>) and leaves the
  slot's configuration and every field of its data unchanged except \<open>rawARINCword\<close>,
  which holds the received word; in particular the engineering fields, SM, SDI, discrete
  bits, \<open>isNotBabbling\<close> and \<open>sysTimeLastGoodMsg_ms\<close> stay as they were. Every other slot
  is unchanged.
\<close>

theorem ProcessReceivedMessage_decode_error:
  assumes "i < length (rxMsgs a)" and "i < maxNumRxMsgsInArray"
    and "label (msgConfig (rxMsgs a ! i)) = ucast (w AND 0xFF)"
    and "\<forall>j<i. label (msgConfig (rxMsgs a ! j)) \<noteq> ucast (w AND 0xFF)"
    and "fst (ARINC429_ProcessReceivedMessage a w now) \<noteq> ARINC429_READ_MSG_SUCCESS"
  shows "(fst (ARINC429_ProcessReceivedMessage a w now) = ARINC429_READ_MSG_ERROR
            \<or> fst (ARINC429_ProcessReceivedMessage a w now) = ARINC429_READ_MSG_ERROR_INVALID_MESSAGE)
       \<and> rxMsgs (snd (ARINC429_ProcessReceivedMessage a w now))
           = (rxMsgs a)[i := (rxMsgs a ! i)\<lparr>data := (data (rxMsgs a ! i))\<lparr>rawARINCword := w\<rparr>\<rparr>]
       \<and> sysTimeLastGoodMsg_ms (data (rxMsgs (snd (ARINC429_ProcessReceivedMessage a w now)) ! i))
           = sysTimeLastGoodMsg_ms (data (rxMsgs a ! i))"
proof -
  have "labelMatch_loop (\<lambda>m. label (msgConfig m) = ucast (w AND 0xFF)) (rxMsgs a) 0 = Some i"
    using assms(1-4) by (intro labelMatch_loop_first) auto
  from ProcessReceivedMessage_match[OF this, of now] obtain st m' where
    r: "ARINC429_ProcessReceivedMessage a w now = (st, a\<lparr>rxMsgs := (rxMsgs a)[i := m']\<rparr>)"
       "msgConfig m' = msgConfig (rxMsgs a ! i)"
       "st \<noteq> ARINC429_READ_MSG_SUCCESS \<longrightarrow>
            (st = ARINC429_READ_MSG_ERROR \<or> st = ARINC429_READ_MSG_ERROR_INVALID_MESSAGE)
            \<and> data m' = (data (rxMsgs a ! i))\<lparr>rawARINCword := w\<rparr>"
    by blast
  from r(1) assms(5) have ne: "st \<noteq> ARINC429_READ_MSG_SUCCESS" by simp
  with r(3) have st: "st = ARINC429_READ_MSG_ERROR \<or> st = ARINC429_READ_MSG_ERROR_INVALID_MESSAGE"
    and d: "data m' = (data (rxMsgs a ! i))\<lparr>rawARINCword := w\<rparr>" by simp_all
  have "m' = (rxMsgs a ! i)\<lparr>data := (data (rxMsgs a ! i))\<lparr>rawARINCword := w\<rparr>\<rparr>"
    using r(2) d by (cases m'; cases "rxMsgs a ! i") simp
  with r(1) st assms(1) show ?thesis by simp
qed

theorem ProcessReceivedMessage_decode_error_witness:
  "(0::nat) < length (rxMsgs example_group235) \<and> (0::nat) < maxNumRxMsgsInArray
   \<and> label (msgConfig (rxMsgs example_group235 ! 0)) = ucast ((0x000028B9 :: 32 word) AND 0xFF)
   \<and> fst (ARINC429_ProcessReceivedMessage example_group235 0x000028B9 150) \<noteq> ARINC429_READ_MSG_SUCCESS
   \<and> fst (ARINC429_ProcessReceivedMessage example_group235 0x000028B9 150)
       = ARINC429_READ_MSG_ERROR_INVALID_MESSAGE
   \<and> rxMsgs (snd (ARINC429_ProcessReceivedMessage example_group235 0x000028B9 150))
       = [example_slot235\<lparr>data := (data example_slot235)\<lparr>rawARINCword := 0x000028B9\<rparr>\<rparr>]
   \<and> sysTimeLastGoodMsg_ms (data (rxMsgs (snd (ARINC429_ProcessReceivedMessage example_group235 0x000028B9 150)) ! 0))
       = 100"
proof -
  have h1: "(0::nat) < length (rxMsgs example_group235)" by (simp add: example_group235_def)
  have h2: "(0::nat) < maxNumRxMsgsInArray" by (simp add: maxNumRxMsgsInArray_def)
  have h3: "label (msgConfig (rxMsgs example_group235 ! 0)) = ucast ((0x000028B9 :: 32 word) AND 0xFF)"
    by (simp add: example_group235_def example_slot235_def)
  have h4: "\<forall>j<(0::nat). label (msgConfig (rxMsgs example_group235 ! j)) \<noteq> ucast ((0x000028B9 :: 32 word) AND 0xFF)"
    by simp
  have st: "fst (ARINC429_ProcessReceivedMessage example_group235 0x000028B9 150)
       = ARINC429_READ_MSG_ERROR_INVALID_MESSAGE" by code_simp
  then have h5: "fst (ARINC429_ProcessReceivedMessage example_group235 0x000028B9 150) \<noteq> ARINC429_READ_MSG_SUCCESS"
    by simp
  from ProcessReceivedMessage_decode_error[OF h1 h2 h3 h4 h5] h1 h2 h3 h5 st
  show ?thesis by (simp add: example_group235_def example_slot235_def)
qed

text \<open>
  Claim C6. Let slot \<open>i\<close> be the slot that the search finds for the label of a word. On a
  successful receipt at time \<open>t1\<close> the slot's \<open>isNotBabbling\<close> becomes
  \<open>(t1 - sysTimeLastGoodMsg_ms) \<ge> minTransmitInterval_ms\<close>, evaluated with the time stamp
  the slot held before the call, and \<open>sysTimeLastGoodMsg_ms\<close> becomes \<open>t1\<close>. Hence after a
  second successful receipt of the same label at time \<open>t2\<close> the flag is
  \<open>(t2 - t1) \<ge> minTransmitInterval_ms\<close>. Time differences are taken modulo \<open>2^32\<close>.
\<close>

theorem ProcessReceivedMessage_babble_rule:
  assumes "i < length (rxMsgs a)" and "i < maxNumRxMsgsInArray"
    and "label (msgConfig (rxMsgs a ! i)) = ucast (w1 AND 0xFF)"
    and "\<forall>j<i. label (msgConfig (rxMsgs a ! j)) \<noteq> ucast (w1 AND 0xFF)"
    and "w2 AND 0xFF = w1 AND 0xFF"
    and "ARINC429_ProcessReceivedMessage a w1 t1 = (ARINC429_READ_MSG_SUCCESS, a1)"
    and "ARINC429_ProcessReceivedMessage a1 w2 t2 = (ARINC429_READ_MSG_SUCCESS, a2)"
  shows "isNotBabbling (data (rxMsgs a1 ! i))
           = (t1 - sysTimeLastGoodMsg_ms (data (rxMsgs a ! i))
                \<ge> ucast (minTransmitInterval_ms (msgConfig (rxMsgs a ! i))))
       \<and> sysTimeLastGoodMsg_ms (data (rxMsgs a1 ! i)) = t1
       \<and> isNotBabbling (data (rxMsgs a2 ! i))
           = (t2 - t1 \<ge> ucast (minTransmitInterval_ms (msgConfig (rxMsgs a ! i))))
       \<and> sysTimeLastGoodMsg_ms (data (rxMsgs a2 ! i)) = t2"
proof -
  let ?P = "\<lambda>m. label (msgConfig m) = ucast (w1 AND 0xFF)"
  have f1: "labelMatch_loop ?P (rxMsgs a) 0 = Some i"
    using assms(1-4) by (intro labelMatch_loop_first) auto
  from ProcessReceivedMessage_match[OF f1, of t1] assms(6) obtain m1 where
    r1: "a1 = a\<lparr>rxMsgs := (rxMsgs a)[i := m1]\<rparr>"
        "msgConfig m1 = msgConfig (rxMsgs a ! i)"
        "sysTimeLastGoodMsg_ms (data m1) = t1"
        "isNotBabbling (data m1)
           = (t1 - sysTimeLastGoodMsg_ms (data (rxMsgs a ! i))
                \<ge> ucast (minTransmitInterval_ms (msgConfig (rxMsgs a ! i))))"
    by auto
  have len1: "length (rxMsgs a1) = length (rxMsgs a)" using r1(1) by simp
  have cfg1: "\<And>j. j < length (rxMsgs a) \<Longrightarrow> msgConfig (rxMsgs a1 ! j) = msgConfig (rxMsgs a ! j)"
  proof -
    fix j assume "j < length (rxMsgs a)"
    then show "msgConfig (rxMsgs a1 ! j) = msgConfig (rxMsgs a ! j)"
      using r1(1,2) by (cases "j = i") simp_all
  qed
  have s1: "rxMsgs a1 ! i = m1" using r1(1) assms(1) by simp
  have f2: "labelMatch_loop (\<lambda>m. label (msgConfig m) = ucast (w2 AND 0xFF)) (rxMsgs a1) 0 = Some i"
  proof (intro labelMatch_loop_first)
    show "i < length (rxMsgs a1)" using len1 assms(1) by simp
    show "i < maxNumRxMsgsInArray" by (rule assms(2))
    show "label (msgConfig (rxMsgs a1 ! i)) = ucast (w2 AND 0xFF)"
      using cfg1[OF assms(1)] assms(3,5) by simp
    show "\<forall>j<i. label (msgConfig (rxMsgs a1 ! j)) \<noteq> ucast (w2 AND 0xFF)"
      using cfg1 assms(1,4,5) by simp
  qed
  from ProcessReceivedMessage_match[OF f2, of t2] assms(7) obtain m2 where
    r2: "a2 = a1\<lparr>rxMsgs := (rxMsgs a1)[i := m2]\<rparr>"
        "sysTimeLastGoodMsg_ms (data m2) = t2"
        "isNotBabbling (data m2)
           = (t2 - sysTimeLastGoodMsg_ms (data (rxMsgs a1 ! i))
                \<ge> ucast (minTransmitInterval_ms (msgConfig (rxMsgs a1 ! i))))"
    by auto
  have s2: "rxMsgs a2 ! i = m2" using r2(1) len1 assms(1) by simp
  show ?thesis
    using r1 r2 s1 s2 by simp
qed

text \<open>
  Claim C7. \<open>ARINC429_GetLatestLabelData\<close> recomputes \<open>isDataFresh\<close> on every read as
  \<open>(now - sysTimeLastGoodMsg_ms) \<le> maxTransmitInterval_ms\<close>, whatever the slot's stored
  flag is. For a slot with \<open>maxTransmitInterval_ms = 25\<close> whose last good receipt was at
  time \<open>T\<close>, the data read at time \<open>T + 25\<close> is fresh and the data read at \<open>T + 26\<close> is not.
\<close>

theorem GetLatestLabelData_freshness_boundary:
  assumes "i < length (rxMsgs a)" and "i < maxNumRxMsgsInArray"
    and "ucast (label (msgConfig (rxMsgs a ! i))) = L"
    and "\<forall>j<i. ucast (label (msgConfig (rxMsgs a ! j))) \<noteq> L"
    and "sysTimeLastGoodMsg_ms (data (rxMsgs a ! i)) = T"
  shows "(\<forall>now. fst (ARINC429_GetLatestLabelData a L local now) = ARINC429_GET_LABEL_DATA_MSG_SUCCESS
            \<and> isDataFresh (snd (ARINC429_GetLatestLabelData a L local now))
                = (now - T \<le> ucast (maxTransmitInterval_ms (msgConfig (rxMsgs a ! i)))))
       \<and> (maxTransmitInterval_ms (msgConfig (rxMsgs a ! i)) = 25
            \<longrightarrow> isDataFresh (snd (ARINC429_GetLatestLabelData a L local (T + 25)))
              \<and> \<not> isDataFresh (snd (ARINC429_GetLatestLabelData a L local (T + 26))))"
proof -
  have f: "labelMatch_loop (\<lambda>m. ucast (label (msgConfig m)) = L) (rxMsgs a) 0 = Some i"
    using assms(1-4) by (intro labelMatch_loop_first) auto
  have rd: "\<And>now. ARINC429_GetLatestLabelData a L local now
          = (ARINC429_GET_LABEL_DATA_MSG_SUCCESS,
             (data (rxMsgs a ! i))
               \<lparr>isDataFresh := (now - T \<le> ucast (maxTransmitInterval_ms (msgConfig (rxMsgs a ! i))))\<rparr>)"
    using f assms(5) by (simp add: ARINC429_GetLatestLabelData_def ARINC429_IsLabelDataFresh_def)
  show ?thesis by (simp add: rd)
qed

theorem ProcessReceivedMessage_babble_rule_witness:
  "fst (ARINC429_ProcessReceivedMessage example_group271 0x0000049D 200) = ARINC429_READ_MSG_SUCCESS
   \<and> fst (ARINC429_ProcessReceivedMessage
             (snd (ARINC429_ProcessReceivedMessage example_group271 0x0000049D 200)) 0x0000009D 205)
       = ARINC429_READ_MSG_SUCCESS
   \<and> isNotBabbling (data (rxMsgs (snd (ARINC429_ProcessReceivedMessage example_group271 0x0000049D 200)) ! 0))
   \<and> \<not> isNotBabbling (data (rxMsgs (snd (ARINC429_ProcessReceivedMessage
             (snd (ARINC429_ProcessReceivedMessage example_group271 0x0000049D 200)) 0x0000009D 205)) ! 0))
   \<and> sysTimeLastGoodMsg_ms (data (rxMsgs (snd (ARINC429_ProcessReceivedMessage
             (snd (ARINC429_ProcessReceivedMessage example_group271 0x0000049D 200)) 0x0000009D 205)) ! 0))
       = 205"
proof -
  let ?a1 = "snd (ARINC429_ProcessReceivedMessage example_group271 0x0000049D 200)"
  let ?a2 = "snd (ARINC429_ProcessReceivedMessage ?a1 0x0000009D 205)"
  have h1: "(0::nat) < length (rxMsgs example_group271)" by (simp add: example_group271_def)
  have h2: "(0::nat) < maxNumRxMsgsInArray" by (simp add: maxNumRxMsgsInArray_def)
  have h3: "label (msgConfig (rxMsgs example_group271 ! 0)) = ucast ((0x0000049D :: 32 word) AND 0xFF)"
    by (simp add: example_group271_def example_slot271_def)
  have h4: "\<forall>j<(0::nat). label (msgConfig (rxMsgs example_group271 ! j))
              \<noteq> ucast ((0x0000049D :: 32 word) AND 0xFF)"
    by simp
  have h5: "(0x0000009D :: 32 word) AND 0xFF = 0x0000049D AND 0xFF" by simp
  have st1: "fst (ARINC429_ProcessReceivedMessage example_group271 0x0000049D 200) = ARINC429_READ_MSG_SUCCESS"
    by code_simp
  have st2: "fst (ARINC429_ProcessReceivedMessage ?a1 0x0000009D 205) = ARINC429_READ_MSG_SUCCESS"
    by code_simp
  have h6: "ARINC429_ProcessReceivedMessage example_group271 0x0000049D 200 = (ARINC429_READ_MSG_SUCCESS, ?a1)"
    using st1 by (metis prod.collapse)
  have h7: "ARINC429_ProcessReceivedMessage ?a1 0x0000009D 205 = (ARINC429_READ_MSG_SUCCESS, ?a2)"
    using st2 by (metis prod.collapse)
  from ProcessReceivedMessage_babble_rule[OF h1 h2 h3 h4 h5 h6 h7] st1 st2
  show ?thesis by (simp add: example_group271_def example_slot271_def)
qed

theorem GetLatestLabelData_freshness_boundary_witness:
  "(0::nat) < length (rxMsgs example_group271) \<and> (0::nat) < maxNumRxMsgsInArray
   \<and> ucast (label (msgConfig (rxMsgs example_group271 ! 0))) = (0x9D :: 16 word)
   \<and> sysTimeLastGoodMsg_ms (data (rxMsgs example_group271 ! 0)) = 100
   \<and> maxTransmitInterval_ms (msgConfig (rxMsgs example_group271 ! 0)) = 25
   \<and> isDataFresh (snd (ARINC429_GetLatestLabelData example_group271 0x9D (data example_slot271) 125))
   \<and> \<not> isDataFresh (snd (ARINC429_GetLatestLabelData example_group271 0x9D (data example_slot271) 126))"
proof -
  have h1: "(0::nat) < length (rxMsgs example_group271)" by (simp add: example_group271_def)
  have h2: "(0::nat) < maxNumRxMsgsInArray" by (simp add: maxNumRxMsgsInArray_def)
  have h3: "ucast (label (msgConfig (rxMsgs example_group271 ! 0))) = (0x9D :: 16 word)"
    by (simp add: example_group271_def example_slot271_def)
  have h4: "\<forall>j<(0::nat). ucast (label (msgConfig (rxMsgs example_group271 ! j))) \<noteq> (0x9D :: 16 word)"
    by simp
  have h5: "sysTimeLastGoodMsg_ms (data (rxMsgs example_group271 ! 0)) = 100"
    by (simp add: example_group271_def example_slot271_def)
  have h6: "maxTransmitInterval_ms (msgConfig (rxMsgs example_group271 ! 0)) = 25"
    by (simp add: example_group271_def example_slot271_def)
  from GetLatestLabelData_freshness_boundary[OF h1 h2 h3 h4 h5, of "data example_slot271"] h1 h2 h3 h5 h6
  show ?thesis by simp
qed

section \<open>The assembled BNR word\<close>

lemma datafield_masks:
  "(0x1FFFFC00 :: 32 word) = push_bit 10 (mask 19)"
  "(0x1FFFFE00 :: 32 word) = push_bit 9 (mask 20)"
  "(0x1FFFFF00 :: 32 word) = push_bit 8 (mask 21)"
  by (simp_all add: mask_eq_exp_minus_1)

lemma limit_masks: "(3 :: 32 word) = mask 2" "(0xFF :: 32 word) = mask 8"
  by (simp_all add: mask_eq_exp_minus_1)

lemma UINT32_MAX_shifted: "k \<le> 32 \<Longrightarrow> drop_bit (32 - k) (- 1 :: 32 word) = mask k"
  by (rule bit_word_eqI) (auto simp: bit_simps)

lemmas arinc_consts =
  ARINC429_SSM_FIELD_SHIFT_VAL_def ARINC429_SSM_FIELD_LIMIT_MASK_def
  ARINC429_SDI_FIELD_SHIFT_VAL_def ARINC429_SDI_FIELD_LIMIT_MASK_def
  ARINC429_BNR_MAX_DATA_FIELD_SHIFT_def ARINC429_BNR_STD_MSG_NUM_SIGBITS_18_def
  ARINC429_BNR_STD_MSG_NUM_SIGBITS_19_def ARINC429_BNR_STD_MSG_NUM_SIGBITS_20_def
  ARINC429_BNR_STD_MSG_MAX_NUM_SIGBITS_def
  ARINC429_BNR_STD_MSG_DATAFIELDMASK_UPTO18SIGBITS_def
  ARINC429_BNR_STD_MSG_DATAFIELDMASK_19SIGBITS_def
  ARINC429_BNR_STD_MSG_DATAFIELDMASK_20SIGBITS_def
  ARINC429_BNR_BCD_MSG_DISCRETE_BITS_SHIFT_VAL_def
  ARINC429_BCD_DATAFIELDMASK_def ARINC429_BCD_STD_DATA_MAX_DATA_FIELD_SIZE_def
  ARINC429_BCD_STD_MSG_DATA_FIELD_SHIFT_def ARINC429_BCD_BITS_PER_DIGIT_def
  ARINC429_BCD_STD_MSG_MAX_NUM_SIGDIGITS_def ARINC429_BCD_STD_MSG_MAX_NUM_BITS_MSC_def
  ARINC429_LBL_MASK_def NUM_BITS_IN_UINT32_def UINT32_MAX_def

lemma AssembleStdBNRmessage_word:
  assumes "tx_msgConfig tx = Some cfg"
    and "ARINC429_BNR_ConvertEngValToRawBNRmsgData (numSigBits cfg) (resolution cfg) (engData tx)
           = Some (df, clipped)"
    and "numDiscreteBits cfg \<le> 32"
  shows "ARINC429_AssembleStdBNRmessage tx
           = (if clipped then ARINC429_WRITE_MSG_SENT_DATA_CLIPPED else ARINC429_WRITE_MSG_SUCCESS,
              Some (BNR_word cfg tx df))"
  using assms
  by (simp add: ARINC429_AssembleStdBNRmessage_def BNR_word_def Let_def arinc_consts
        datafield_masks limit_masks UINT32_MAX_shifted[simplified] or.assoc)

lemma BNR_word_SSM:
  assumes "numDiscreteBits cfg \<le> 19"
  shows "ARINC429_ExtractSSMbits (BNR_word cfg tx df) = ucast (tx_SM tx)"
  unfolding ARINC429_ExtractSSMbits_def BNR_word_def arinc_consts limit_masks
  using assms
  by (intro bit_word_eqI) (auto simp: bit_simps dest: bit_imp_le_length)

section \<open>Filter spool-up\<close>

lemma ConvertEngValToRawBNRmsgData_total:
  assumes "1 \<le> n" and "n \<le> 20"
  shows "\<exists>df clipped. ARINC429_BNR_ConvertEngValToRawBNRmsgData n r e = Some (df, clipped)"
  using assms
  by (auto simp: ARINC429_BNR_ConvertEngValToRawBNRmsgData_def Let_def
        ARINC429_BNR_STD_MSG_MAX_NUM_SIGBITS_def)

lemma assembled_word_SSM:
  assumes "tx_msgConfig tx = Some cfg" and "1 \<le> numSigBits cfg" and "numSigBits cfg \<le> 20"
    and "numDiscreteBits cfg \<le> 19"
  shows "ARINC429_ExtractSSMbits
           (case snd (ARINC429_AssembleStdBNRmessage tx) of Some w \<Rightarrow> w | None \<Rightarrow> u)
         = ucast (tx_SM tx)"
proof -
  from ConvertEngValToRawBNRmsgData_total[OF assms(2,3)] obtain df clipped where
    "ARINC429_BNR_ConvertEngValToRawBNRmsgData (numSigBits cfg) (resolution cfg) (engData tx)
       = Some (df, clipped)" by blast
  from AssembleStdBNRmessage_word[OF assms(1) this] assms(4)
  have "snd (ARINC429_AssembleStdBNRmessage tx) = Some (BNR_word cfg tx df)" by simp
  then show ?thesis using BNR_word_SSM[OF assms(4)] by simp
qed

lemma CalculateSlipAngle_step:
  "CalculateSlipAngle a env st = (w, st') \<Longrightarrow>
   (slipAngle_AZ_valid (a, env) \<and> \<not> isIIRSlipFilterGood st \<longrightarrow>
        ARINC429_ExtractSSMbits w = ucast ARINC429_SSM_BNR_FAILURE_WARNING
      \<and> iirFilterGoodCount st' = iirFilterGoodCount st + 1
      \<and> isIIRSlipFilterGood st' = (iirFilterGoodCount st + 1 > 10))
   \<and> (slipAngle_AZ_valid (a, env) \<and> isIIRSlipFilterGood st \<longrightarrow>
        st' = st
      \<and> ARINC429_ExtractSSMbits w = ucast (slipAngle_checked_SSM (a, env)))
   \<and> (\<not> slipAngle_AZ_valid (a, env) \<longrightarrow>
        ARINC429_ExtractSSMbits w = ucast ARINC429_SSM_BNR_FAILURE_WARNING
      \<and> st' = st\<lparr>isIIRSlipFilterGood := False, iirFilterGoodCount := 0\<rparr>)"
  unfolding CalculateSlipAngle_def slipAngle_AZ_valid_def slipAngle_checked_SSM_def
    slipAngle_AY_valid_def labelDataValid_def
  by (auto simp: Let_def filterGoodThreshold_def assembled_word_SSM arincLabel250Config_def
      split: prod.splits if_splits)

lemma CalculateTurnRate_step:
  "CalculateTurnRate a env st = (w, st') \<Longrightarrow>
   (turnRate_valid (a, env) \<and> \<not> isIIRDiffGood st \<longrightarrow>
        ARINC429_ExtractSSMbits w = ucast ARINC429_SSM_BNR_FAILURE_WARNING
      \<and> iirDiffGoodCount st' = iirDiffGoodCount st + 1)
   \<and> (turnRate_valid (a, env) \<and> isIIRDiffGood st \<longrightarrow>
        st' = st
      \<and> ARINC429_ExtractSSMbits w
          = ucast (ARINC429_CheckValidityOfARINC_BNR_Data
                     (IIR_Differentiator_Limited_ret env) arincLabel340Config))
   \<and> (\<not> turnRate_valid (a, env) \<longrightarrow>
        ARINC429_ExtractSSMbits w = ucast ARINC429_SSM_BNR_FAILURE_WARNING
      \<and> st' = st\<lparr>isIIRDiffGood := False, iirDiffGoodCount := 0\<rparr>)"
  unfolding CalculateTurnRate_def turnRate_valid_def labelDataValid_def
  by (auto simp: Let_def filterGoodThreshold_def assembled_word_SSM arincLabel340Config_def
      split: prod.splits if_splits)


lemma CalculateSlipAngle_calls_good:
  "\<forall>c \<in> set cs. slipAngle_AZ_valid c \<Longrightarrow> isIIRSlipFilterGood st \<Longrightarrow>
   CalculateSlipAngle_calls cs st = (ws, st') \<Longrightarrow>
   st' = st \<and> length ws = length cs
   \<and> (\<forall>k<length cs. ARINC429_ExtractSSMbits (ws ! k) = ucast (slipAngle_checked_SSM (cs ! k)))"
proof (induction cs arbitrary: ws)
  case Nil
  then show ?case by simp
next
  case (Cons c cs)
  obtain a env where c: "c = (a, env)" by (cases c)
  obtain w st1 where s1: "CalculateSlipAngle a env st = (w, st1)"
    by (cases "CalculateSlipAngle a env st")
  obtain ws1 st2 where s2: "CalculateSlipAngle_calls cs st1 = (ws1, st2)"
    by (cases "CalculateSlipAngle_calls cs st1")
  from Cons.prems(1) c have v: "slipAngle_AZ_valid (a, env)" by simp
  from CalculateSlipAngle_step[OF s1] v Cons.prems(2)
  have one: "st1 = st" "ARINC429_ExtractSSMbits w = ucast (slipAngle_checked_SSM (a, env))"
    by simp_all
  from Cons.prems(3) c s1 s2 have res: "ws = w # ws1" "st' = st2" by simp_all
  from Cons.IH[of ws1] Cons.prems(1,2) s2 one(1) res(2)
  have ih: "st' = st" "length ws1 = length cs"
    "\<forall>k<length cs. ARINC429_ExtractSSMbits (ws1 ! k) = ucast (slipAngle_checked_SSM (cs ! k))"
    by simp_all
  have "\<forall>k<length (c # cs). ARINC429_ExtractSSMbits (ws ! k)
          = ucast (slipAngle_checked_SSM ((c # cs) ! k))"
  proof (intro allI impI)
    fix k assume "k < length (c # cs)"
    then show "ARINC429_ExtractSSMbits (ws ! k) = ucast (slipAngle_checked_SSM ((c # cs) ! k))"
      using ih(3) one(2) res(1) c by (cases k) simp_all
  qed
  with ih res show ?case by simp
qed

lemma CalculateSlipAngle_calls_spool:
  "\<forall>c \<in> set cs. slipAngle_AZ_valid c \<Longrightarrow> \<not> isIIRSlipFilterGood st \<Longrightarrow>
   iirFilterGoodCount st = n \<Longrightarrow> n \<le> 10 \<Longrightarrow>
   CalculateSlipAngle_calls cs st = (ws, st') \<Longrightarrow>
   length ws = length cs
   \<and> (isIIRSlipFilterGood st' \<longleftrightarrow> 11 \<le> n + length cs)
   \<and> (\<forall>k<length cs. n + k < 11 \<longrightarrow>
          ARINC429_ExtractSSMbits (ws ! k) = ucast ARINC429_SSM_BNR_FAILURE_WARNING)
   \<and> (\<forall>k<length cs. 11 \<le> n + k \<longrightarrow>
          ARINC429_ExtractSSMbits (ws ! k) = ucast (slipAngle_checked_SSM (cs ! k)))"
proof (induction cs arbitrary: st n ws st')
  case Nil
  then show ?case by simp
next
  case (Cons c cs)
  obtain a env where c: "c = (a, env)" by (cases c)
  obtain w st1 where s1: "CalculateSlipAngle a env st = (w, st1)"
    by (cases "CalculateSlipAngle a env st")
  obtain ws1 st2 where s2: "CalculateSlipAngle_calls cs st1 = (ws1, st2)"
    by (cases "CalculateSlipAngle_calls cs st1")
  from Cons.prems(1) c have v: "slipAngle_AZ_valid (a, env)" by simp
  have vs: "\<forall>c \<in> set cs. slipAngle_AZ_valid c" using Cons.prems(1) by simp
  from CalculateSlipAngle_step[OF s1] v Cons.prems(2,3)
  have one: "ARINC429_ExtractSSMbits w = ucast ARINC429_SSM_BNR_FAILURE_WARNING"
    "iirFilterGoodCount st1 = n + 1" "isIIRSlipFilterGood st1 = (n + 1 > 10)"
    by simp_all
  from Cons.prems(5) c s1 s2 have res: "ws = w # ws1" "st' = st2" by simp_all
  show ?case
  proof (cases "n + 1 > 10")
    case True
    with one(3) have g: "isIIRSlipFilterGood st1" by simp
    from True Cons.prems(4) have n10: "n = 10" by simp
    from CalculateSlipAngle_calls_good[OF vs g s2]
    have r: "st2 = st1" "length ws1 = length cs"
      "\<forall>k<length cs. ARINC429_ExtractSSMbits (ws1 ! k) = ucast (slipAngle_checked_SSM (cs ! k))"
      by simp_all
    have "\<forall>k<length (c # cs). n + k < 11 \<longrightarrow>
            ARINC429_ExtractSSMbits (ws ! k) = ucast ARINC429_SSM_BNR_FAILURE_WARNING"
      using n10 one(1) res(1) by (auto simp: less_Suc_eq_0_disj)
    moreover have "\<forall>k<length (c # cs). 11 \<le> n + k \<longrightarrow>
            ARINC429_ExtractSSMbits (ws ! k) = ucast (slipAngle_checked_SSM ((c # cs) ! k))"
      using n10 r(3) res(1) by (auto simp: less_Suc_eq_0_disj)
    ultimately show ?thesis using r res g n10 by simp
  next
    case False
    with one(3) have ng: "\<not> isIIRSlipFilterGood st1" by simp
    from False have n1: "n + 1 \<le> 10" by simp
    from Cons.IH[OF vs ng one(2) n1 s2]
    have ih: "length ws1 = length cs" "isIIRSlipFilterGood st2 \<longleftrightarrow> 11 \<le> n + 1 + length cs"
      "\<forall>k<length cs. n + 1 + k < 11 \<longrightarrow>
          ARINC429_ExtractSSMbits (ws1 ! k) = ucast ARINC429_SSM_BNR_FAILURE_WARNING"
      "\<forall>k<length cs. 11 \<le> n + 1 + k \<longrightarrow>
          ARINC429_ExtractSSMbits (ws1 ! k) = ucast (slipAngle_checked_SSM (cs ! k))"
      by simp_all
    have "\<forall>k<length (c # cs). n + k < 11 \<longrightarrow>
            ARINC429_ExtractSSMbits (ws ! k) = ucast ARINC429_SSM_BNR_FAILURE_WARNING"
      using ih(3) one(1) res(1) by (auto simp: less_Suc_eq_0_disj)
    moreover have "\<forall>k<length (c # cs). 11 \<le> n + k \<longrightarrow>
            ARINC429_ExtractSSMbits (ws ! k) = ucast (slipAngle_checked_SSM ((c # cs) ! k))"
      using ih(4) n1 res(1) by (auto simp: less_Suc_eq_0_disj)
    ultimately show ?thesis using ih res by simp
  qed
qed

text \<open>
  Claim C1, as stated, fails in each calculator. In \<open>CalculateSlipAngle\<close> the sample on
  which \<open>good\<close> flips is still processed by the spooling branch: with eleven valid,
  in-range samples from reset, \<open>good\<close> is false after the 10th and true after the 11th,
  and the SSM transmitted on the 11th is \<open>BnrFailureWarning\<close>. In \<open>CalculateTurnRate\<close>
  the test is \<open>count >= 10\<close>, and \<open>good\<close> is already true after the 10th valid sample.
\<close>

theorem spool_timing_counterexample:
  "slipAngle_AZ_valid example_slip_cycle
   \<and> slipAngle_AY_valid example_slip_cycle
   \<and> ARINC429_CheckValidityOfARINC_BNR_Data (radToDeg 0) arincLabel250Config
       = ARINC429_SSM_BNR_NORMAL_OPERATION
   \<and> \<not> isIIRSlipFilterGood (snd (CalculateSlipAngle_calls (replicate 10 example_slip_cycle) SlipAngle_reset))
   \<and> isIIRSlipFilterGood (snd (CalculateSlipAngle_calls (replicate 11 example_slip_cycle) SlipAngle_reset))
   \<and> ARINC429_ExtractSSMbits
         (fst (CalculateSlipAngle_calls (replicate 11 example_slip_cycle) SlipAngle_reset) ! 10)
       = ucast ARINC429_SSM_BNR_FAILURE_WARNING
   \<and> turnRate_valid example_turn_cycle
   \<and> isIIRDiffGood (snd (CalculateTurnRate_calls (replicate 10 example_turn_cycle) TurnRate_reset))"
  by code_simp

text \<open>
  Claim C1, amended. In \<open>CalculateSlipAngle\<close> (threshold 10, test \<open>count > 10\<close>), starting
  from the reset state and fed consecutive valid samples of normal acceleration, \<open>good\<close>
  first becomes true on the 11th sample; the transmitted SSM is \<open>BnrFailureWarning\<close> on
  each of the first 11 samples, the one on which \<open>good\<close> flips included, and from the 12th
  sample on it is the range check of the computed angle (failure warning when lateral
  acceleration is not valid). In both calculators a valid sample processed while \<open>good\<close>
  is false transmits \<open>BnrFailureWarning\<close> and counts one sample, a valid sample processed
  while \<open>good\<close> is true leaves the state alone and transmits the range check of the
  filter output, and any invalid sample transmits \<open>BnrFailureWarning\<close> and returns the
  state to \<open>good = false\<close>, \<open>count = 0\<close>.
\<close>

theorem spool_state_machines:
  assumes "\<forall>c \<in> set cs. slipAngle_AZ_valid c"
    and "\<not> slipAngle_AZ_valid (a1, e1)"
    and "slipAngle_AZ_valid (a2, e2)"
    and "\<not> turnRate_valid (a3, e3)"
    and "turnRate_valid (a4, e4)"
  shows "length (fst (CalculateSlipAngle_calls cs SlipAngle_reset)) = length cs
       \<and> (isIIRSlipFilterGood (snd (CalculateSlipAngle_calls cs SlipAngle_reset)) \<longleftrightarrow> 11 \<le> length cs)
       \<and> (\<forall>k<length cs. k < 11 \<longrightarrow>
             ARINC429_ExtractSSMbits (fst (CalculateSlipAngle_calls cs SlipAngle_reset) ! k)
               = ucast ARINC429_SSM_BNR_FAILURE_WARNING)
       \<and> (\<forall>k<length cs. 11 \<le> k \<longrightarrow>
             ARINC429_ExtractSSMbits (fst (CalculateSlipAngle_calls cs SlipAngle_reset) ! k)
               = ucast (slipAngle_checked_SSM (cs ! k)))
       \<and> snd (CalculateSlipAngle a1 e1 s) = SlipAngle_reset
       \<and> ARINC429_ExtractSSMbits (fst (CalculateSlipAngle a1 e1 s))
           = ucast ARINC429_SSM_BNR_FAILURE_WARNING
       \<and> (\<not> isIIRSlipFilterGood s \<longrightarrow>
             ARINC429_ExtractSSMbits (fst (CalculateSlipAngle a2 e2 s))
               = ucast ARINC429_SSM_BNR_FAILURE_WARNING
             \<and> iirFilterGoodCount (snd (CalculateSlipAngle a2 e2 s)) = iirFilterGoodCount s + 1)
       \<and> (isIIRSlipFilterGood s \<longrightarrow>
             snd (CalculateSlipAngle a2 e2 s) = s
             \<and> ARINC429_ExtractSSMbits (fst (CalculateSlipAngle a2 e2 s))
                 = ucast (slipAngle_checked_SSM (a2, e2)))
       \<and> snd (CalculateTurnRate a3 e3 t) = TurnRate_reset
       \<and> ARINC429_ExtractSSMbits (fst (CalculateTurnRate a3 e3 t))
           = ucast ARINC429_SSM_BNR_FAILURE_WARNING
       \<and> (\<not> isIIRDiffGood t \<longrightarrow>
             ARINC429_ExtractSSMbits (fst (CalculateTurnRate a4 e4 t))
               = ucast ARINC429_SSM_BNR_FAILURE_WARNING
             \<and> iirDiffGoodCount (snd (CalculateTurnRate a4 e4 t)) = iirDiffGoodCount t + 1)
       \<and> (isIIRDiffGood t \<longrightarrow>
             snd (CalculateTurnRate a4 e4 t) = t
             \<and> ARINC429_ExtractSSMbits (fst (CalculateTurnRate a4 e4 t))
                 = ucast (ARINC429_CheckValidityOfARINC_BNR_Data
                            (IIR_Differentiator_Limited_ret e4) arincLabel340Config))"
proof -
  have run: "length (fst (CalculateSlipAngle_calls cs SlipAngle_reset)) = length cs
       \<and> (isIIRSlipFilterGood (snd (CalculateSlipAngle_calls cs SlipAngle_reset)) \<longleftrightarrow> 11 \<le> length cs)
       \<and> (\<forall>k<length cs. k < 11 \<longrightarrow>
             ARINC429_ExtractSSMbits (fst (CalculateSlipAngle_calls cs SlipAngle_reset) ! k)
               = ucast ARINC429_SSM_BNR_FAILURE_WARNING)
       \<and> (\<forall>k<length cs. 11 \<le> k \<longrightarrow>
             ARINC429_ExtractSSMbits (fst (CalculateSlipAngle_calls cs SlipAngle_reset) ! k)
               = ucast (slipAngle_checked_SSM (cs ! k)))"
    using CalculateSlipAngle_calls_spool[OF assms(1), of SlipAngle_reset 0
        "fst (CalculateSlipAngle_calls cs SlipAngle_reset)"
        "snd (CalculateSlipAngle_calls cs SlipAngle_reset)"]
    by (simp add: SlipAngle_reset_def)
  have s1: "snd (CalculateSlipAngle a1 e1 s) = SlipAngle_reset
       \<and> ARINC429_ExtractSSMbits (fst (CalculateSlipAngle a1 e1 s))
           = ucast ARINC429_SSM_BNR_FAILURE_WARNING"
    using CalculateSlipAngle_step[of a1 e1 s "fst (CalculateSlipAngle a1 e1 s)"
        "snd (CalculateSlipAngle a1 e1 s)"] assms(2)
    by (simp add: SlipAngle_reset_def)
  have s2: "(\<not> isIIRSlipFilterGood s \<longrightarrow>
             ARINC429_ExtractSSMbits (fst (CalculateSlipAngle a2 e2 s))
               = ucast ARINC429_SSM_BNR_FAILURE_WARNING
             \<and> iirFilterGoodCount (snd (CalculateSlipAngle a2 e2 s)) = iirFilterGoodCount s + 1)
       \<and> (isIIRSlipFilterGood s \<longrightarrow>
             snd (CalculateSlipAngle a2 e2 s) = s
             \<and> ARINC429_ExtractSSMbits (fst (CalculateSlipAngle a2 e2 s))
                 = ucast (slipAngle_checked_SSM (a2, e2)))"
    using CalculateSlipAngle_step[of a2 e2 s "fst (CalculateSlipAngle a2 e2 s)"
        "snd (CalculateSlipAngle a2 e2 s)"] assms(3)
    by simp
  have t1: "snd (CalculateTurnRate a3 e3 t) = TurnRate_reset
       \<and> ARINC429_ExtractSSMbits (fst (CalculateTurnRate a3 e3 t))
           = ucast ARINC429_SSM_BNR_FAILURE_WARNING"
    using CalculateTurnRate_step[of a3 e3 t "fst (CalculateTurnRate a3 e3 t)"
        "snd (CalculateTurnRate a3 e3 t)"] assms(4)
    by (simp add: TurnRate_reset_def)
  have t2: "(\<not> isIIRDiffGood t \<longrightarrow>
             ARINC429_ExtractSSMbits (fst (CalculateTurnRate a4 e4 t))
               = ucast ARINC429_SSM_BNR_FAILURE_WARNING
             \<and> iirDiffGoodCount (snd (CalculateTurnRate a4 e4 t)) = iirDiffGoodCount t + 1)
       \<and> (isIIRDiffGood t \<longrightarrow>
             snd (CalculateTurnRate a4 e4 t) = t
             \<and> ARINC429_ExtractSSMbits (fst (CalculateTurnRate a4 e4 t))
                 = ucast (ARINC429_CheckValidityOfARINC_BNR_Data
                            (IIR_Differentiator_Limited_ret e4) arincLabel340Config))"
    using CalculateTurnRate_step[of a4 e4 t "fst (CalculateTurnRate a4 e4 t)"
        "snd (CalculateTurnRate a4 e4 t)"] assms(5)
    by simp
  from run s1 s2 t1 t2 show ?thesis by (intro conjI) (elim conjE, assumption)+
qed

theorem spool_state_machines_witness:
  "slipAngle_AZ_valid example_slip_cycle
   \<and> \<not> slipAngle_AZ_valid (example_groupAHRS, example_slip_env\<lparr>now_AZ := 200\<rparr>)
   \<and> slipAngle_AZ_valid (example_groupAHRS, example_slip_env)
   \<and> \<not> turnRate_valid (example_groupAHRS, example_turn_env\<lparr>now_magHeading := 200\<rparr>)
   \<and> turnRate_valid (example_groupAHRS, example_turn_env)
   \<and> isIIRSlipFilterGood (snd (CalculateSlipAngle_calls (replicate 12 example_slip_cycle) SlipAngle_reset))
   \<and> ARINC429_ExtractSSMbits
         (fst (CalculateSlipAngle_calls (replicate 12 example_slip_cycle) SlipAngle_reset) ! 10) = 0
   \<and> ARINC429_ExtractSSMbits
         (fst (CalculateSlipAngle_calls (replicate 12 example_slip_cycle) SlipAngle_reset) ! 11) = 3
   \<and> snd (CalculateSlipAngle example_groupAHRS (example_slip_env\<lparr>now_AZ := 200\<rparr>)
             \<lparr>isIIRSlipFilterGood = True, iirFilterGoodCount = 11\<rparr>) = SlipAngle_reset
   \<and> snd (CalculateTurnRate example_groupAHRS (example_turn_env\<lparr>now_magHeading := 200\<rparr>)
             \<lparr>isIIRDiffGood = True, iirDiffGoodCount = 10\<rparr>) = TurnRate_reset
   \<and> ARINC429_ExtractSSMbits
         (fst (CalculateTurnRate example_groupAHRS example_turn_env
                 \<lparr>isIIRDiffGood = True, iirDiffGoodCount = 10\<rparr>)) = 3"
proof -
  have v: "slipAngle_AZ_valid example_slip_cycle" by code_simp
  have h1: "\<forall>c \<in> set (replicate 12 example_slip_cycle). slipAngle_AZ_valid c"
    using v by simp
  have h2: "\<not> slipAngle_AZ_valid (example_groupAHRS, example_slip_env\<lparr>now_AZ := 200\<rparr>)"
    by code_simp
  have h3: "slipAngle_AZ_valid (example_groupAHRS, example_slip_env)"
    using v by (simp add: example_slip_cycle_def)
  have h4: "\<not> turnRate_valid (example_groupAHRS, example_turn_env\<lparr>now_magHeading := 200\<rparr>)"
    by code_simp
  have h5: "turnRate_valid (example_groupAHRS, example_turn_env)"
    by code_simp
  have c1: "ucast (slipAngle_checked_SSM example_slip_cycle) = (3 :: 8 word)" by code_simp
  have c2: "ucast (ARINC429_CheckValidityOfARINC_BNR_Data
                     (IIR_Differentiator_Limited_ret example_turn_env) arincLabel340Config)
             = (3 :: 8 word)" by code_simp
  have c3: "ucast ARINC429_SSM_BNR_FAILURE_WARNING = (0 :: 8 word)"
    by (simp add: ARINC429_SSM_BNR_FAILURE_WARNING_def)
  from spool_state_machines[OF h1 h2 h3 h4 h5,
      of "\<lparr>isIIRSlipFilterGood = True, iirFilterGoodCount = 11\<rparr>"
         "\<lparr>isIIRDiffGood = True, iirDiffGoodCount = 10\<rparr>"]
    v h2 h3 h4 h5 c1 c2 c3
  show ?thesis by simp
qed

section \<open>BNR conversion\<close>
























section \<open>BCD conversion\<close>




















end
